theory Spec2Isabelle
  imports Main "HOL-Library.Word"
begin

unbundle bit_operations_syntax

section \<open>Bytes and JavaScript errors\<close>

text \<open>
  The front-end handles binary material as \<open>Uint8Array\<close>s: a byte is an 8-bit word. Text
  (\<open>string\<close>) is a list of 8-bit characters, which is what the binary strings handed to
  \<open>btoa\<close> and returned by \<open>atob\<close> are; any other text is held as the octets of its UTF-8
  encoding. An exception carries the two fields the handlers' \<open>catch\<close> blocks read:
  \<open>error.name\<close> and \<open>error.message\<close>.
\<close>

type_synonym byte = "8 word"

datatype js_error = JsError (err_name: string) (err_message: string)

section \<open>The TOTP engine\<close>

text \<open>
  \<open>Verify2FA.tsx\<close> and \<open>Setup2FA.tsx\<close> build \<open>new OTPAuth.TOTP({algorithm: 'SHA1',
  digits: 6, period: 30, secret: OTPAuth.Secret.fromBase32(...)})\<close> and call
  \<open>totp.validate({token, window: 1})\<close>. The \<open>otpauth\<close> package is imported, not part of
  the sources; everything in this section is modelled from the specification, which fixes
  the RFC 6238 defaults (HMAC-SHA-1, 30-second period, 6 digits) and base32 secrets.
\<close>

subsection \<open>SHA-1 on 32-bit values\<close>

text \<open>
  32-bit quantities are naturals below \<open>2^32\<close> with the wrap-around written out, so that
  every intermediate value is a canonical numeral.
\<close>

definition add32 :: "nat \<Rightarrow> nat \<Rightarrow> nat" where
  "add32 a b = (a + b) mod 4294967296"

definition rotl32 :: "nat \<Rightarrow> nat \<Rightarrow> nat" where
  "rotl32 n x = (x * 2 ^ n) mod 4294967296 + x div 2 ^ (32 - n)"

definition not32 :: "nat \<Rightarrow> nat" where
  "not32 x = 4294967295 - x"

definition be32 :: "byte list \<Rightarrow> nat" where
  "be32 bs = foldl (\<lambda>acc b. acc * 256 + unat b) 0 bs"

definition u32_bytes :: "nat \<Rightarrow> byte list" where
  "u32_bytes v =
     [of_nat (v div 16777216 mod 256), of_nat (v div 65536 mod 256),
      of_nat (v div 256 mod 256), of_nat (v mod 256)]"

definition u64_bytes :: "nat \<Rightarrow> byte list" where
  "u64_bytes v = u32_bytes (v div 4294967296 mod 4294967296) @ u32_bytes (v mod 4294967296)"

fun chunks :: "nat \<Rightarrow> 'a list \<Rightarrow> 'a list list" where
  "chunks n [] = []"
| "chunks n (x # xs) =
     (if n = 0 then [x # xs] else take n (x # xs) # chunks n (drop n (x # xs)))"

definition sha1_pad :: "byte list \<Rightarrow> byte list" where
  "sha1_pad m =
     m @ [0x80] @ replicate ((119 - length m mod 64) mod 64) 0 @ u64_bytes (8 * length m)"

definition schedule_step :: "nat list \<Rightarrow> nat \<Rightarrow> nat list" where
  "schedule_step w t =
     w @ [rotl32 1 (w ! (t - 3) XOR w ! (t - 8) XOR w ! (t - 14) XOR w ! (t - 16))]"

definition sha1_f :: "nat \<Rightarrow> nat \<Rightarrow> nat \<Rightarrow> nat \<Rightarrow> nat" where
  "sha1_f t b c d =
     (if t < 20 then (b AND c) OR (not32 b AND d)
      else if t < 40 then b XOR c XOR d
      else if t < 60 then (b AND c) OR (b AND d) OR (c AND d)
      else b XOR c XOR d)"

definition sha1_k :: "nat \<Rightarrow> nat" where
  "sha1_k t =
     (if t < 20 then 0x5A827999 else if t < 40 then 0x6ED9EBA1
      else if t < 60 then 0x8F1BBCDC else 0xCA62C1D6)"

type_synonym sha1_state = "nat \<times> nat \<times> nat \<times> nat \<times> nat"

fun sha1_rounds :: "nat \<Rightarrow> nat list \<Rightarrow> sha1_state \<Rightarrow> sha1_state" where
  "sha1_rounds t [] s = s"
| "sha1_rounds t (w # ws) (a, b, c, d, e) =
     sha1_rounds (Suc t) ws
       (add32 (add32 (add32 (add32 (rotl32 5 a) (sha1_f t b c d)) e) (sha1_k t)) w,
        a, rotl32 30 b, c, d)"

definition sha1_block :: "sha1_state \<Rightarrow> byte list \<Rightarrow> sha1_state" where
  "sha1_block s blk =
     (case s of (h0, h1, h2, h3, h4) \<Rightarrow>
        (case sha1_rounds 0 (foldl schedule_step (map be32 (chunks 4 blk)) [16..<80]) s of
           (a, b, c, d, e) \<Rightarrow> (add32 h0 a, add32 h1 b, add32 h2 c, add32 h3 d, add32 h4 e)))"

definition sha1_init :: sha1_state where
  "sha1_init = (0x67452301, 0xEFCDAB89, 0x98BADCFE, 0x10325476, 0xC3D2E1F0)"

definition sha1 :: "byte list \<Rightarrow> byte list" where
  "sha1 m =
     (case foldl sha1_block sha1_init (chunks 64 (sha1_pad m)) of
        (a, b, c, d, e) \<Rightarrow> u32_bytes a @ u32_bytes b @ u32_bytes c @ u32_bytes d @ u32_bytes e)"

subsection \<open>HMAC, HOTP and TOTP\<close>

definition hmac_sha1 :: "byte list \<Rightarrow> byte list \<Rightarrow> byte list" where
  "hmac_sha1 key msg =
     (let k0 = (if 64 < length key then sha1 key else key);
          k = k0 @ replicate (64 - length k0) 0
      in sha1 (map (\<lambda>b. b XOR 0x5c) k @ sha1 (map (\<lambda>b. b XOR 0x36) k @ msg)))"

text \<open>Dynamic truncation of RFC 4226: 31 bits taken at the offset the last nibble names.\<close>

definition dynamic_truncate :: "byte list \<Rightarrow> nat" where
  "dynamic_truncate d =
     (let off = unat (d ! 19) mod 16
      in (unat (d ! off) mod 128) * 16777216 + unat (d ! (off + 1)) * 65536
         + unat (d ! (off + 2)) * 256 + unat (d ! (off + 3)))"

definition digit_char :: "nat \<Rightarrow> char" where
  "digit_char n = ''0123456789'' ! (n mod 10)"

text \<open>The code modulo \<open>10^6\<close>, in decimal, left-padded with zeros to six characters.\<close>

definition six_digits :: "nat \<Rightarrow> string" where
  "six_digits v =
     [digit_char (v div 100000), digit_char (v div 10000), digit_char (v div 1000),
      digit_char (v div 100), digit_char (v div 10), digit_char v]"

text \<open>The moving factor is the counter as an unsigned 64-bit big-endian integer.\<close>

definition hotp :: "byte list \<Rightarrow> int \<Rightarrow> string" where
  "hotp key counter =
     six_digits (dynamic_truncate (hmac_sha1 key (u64_bytes (nat (counter mod 2 ^ 64)))))"

definition totp_period :: int where
  "totp_period = 30"

text \<open>\<open>time\<close> is Unix time in seconds.\<close>

definition totp_counter :: "int \<Rightarrow> int" where
  "totp_counter time = time div totp_period"

definition totp_generate :: "byte list \<Rightarrow> int \<Rightarrow> string" where
  "totp_generate key time = hotp key (totp_counter time)"

text \<open>
  Modelled from the spec: \<open>validate(secret, submittedCode, window=1)\<close> of the TOTP engine
  (the \<open>otpauth\<close> package's \<open>TOTP.validate\<close>, which is not in the sources). It "must check
  the current period and \<open>\<plusminus>1\<close> adjacent period" and "returns the first matching offset or a
  no-match sentinel": the periods are tried in the order current, previous, next, and so
  on outwards for a larger window; \<open>None\<close> is JavaScript's \<open>null\<close>.
\<close>

fun window_offsets :: "nat \<Rightarrow> int list" where
  "window_offsets 0 = [0]"
| "window_offsets (Suc n) = window_offsets n @ [- int (Suc n), int (Suc n)]"

definition totp_validate :: "byte list \<Rightarrow> string \<Rightarrow> nat \<Rightarrow> int \<Rightarrow> int option" where
  "totp_validate key token window now =
     find (\<lambda>delta. hotp key (totp_counter now + delta) = token) (window_offsets window)"

text \<open>The two keys and the validation instants the worked examples use.\<close>

definition rfc_key :: "byte list" where
  "rfc_key = [49, 50, 51, 52, 53, 54, 55, 56, 57, 48, 49, 50, 51, 52, 53, 54, 55, 56, 57, 48]"

definition other_key :: "byte list" where
  "other_key = [75, 50, 45, 48, 48, 48, 48, 48, 48, 48, 48, 48, 48, 48, 55, 50, 54, 51, 57, 51]"

section \<open>Text encodings of binary material\<close>

text \<open>
  \<open>btoa\<close>, \<open>atob\<close> and \<open>TextEncoder\<close> are platform built-ins and \<open>Secret.fromBase32\<close> belongs
  to the \<open>otpauth\<close> package; the sources only call them. They are modelled from the
  specification ("encodes both as base64", "base32-encoded symmetric key") as RFC 4648
  base64 and base32. \<open>btoa\<close> here is the composition the source always uses,
  \<open>btoa(String.fromCharCode(...bytes))\<close>, and \<open>atob\<close> is
  \<open>Uint8Array.from(atob(s), c => c.charCodeAt(0))\<close>, which raises on text that is not base64.
\<close>

definition b64_alphabet :: string where
  "b64_alphabet = ''ABCDEFGHIJKLMNOPQRSTUVWXYZabcdefghijklmnopqrstuvwxyz0123456789+/''"

definition b64_char :: "nat \<Rightarrow> char" where
  "b64_char n = b64_alphabet ! n"

fun btoa :: "byte list \<Rightarrow> string" where
  "btoa (a # b # c # rest) =
     [b64_char (unat a div 4), b64_char (unat a mod 4 * 16 + unat b div 16),
      b64_char (unat b mod 16 * 4 + unat c div 64), b64_char (unat c mod 64)] @ btoa rest"
| "btoa [a, b] =
     [b64_char (unat a div 4), b64_char (unat a mod 4 * 16 + unat b div 16),
      b64_char (unat b mod 16 * 4), CHR ''='']"
| "btoa [a] = [b64_char (unat a div 4), b64_char (unat a mod 4 * 16), CHR ''='', CHR ''='']"
| "btoa [] = []"

definition b64_value :: "char \<Rightarrow> nat option" where
  "b64_value c =
     (if 65 \<le> (of_char c :: nat) \<and> (of_char c :: nat) \<le> 90 then Some (of_char c - 65)
      else if 97 \<le> (of_char c :: nat) \<and> (of_char c :: nat) \<le> 122 then Some (of_char c - 71)
      else if 48 \<le> (of_char c :: nat) \<and> (of_char c :: nat) \<le> 57 then Some (of_char c + 4)
      else if c = CHR ''+'' then Some 62
      else if c = CHR ''/'' then Some 63
      else None)"

text \<open>
  Groups of \<open>width\<close> bits are shifted into an accumulator holding \<open>bits\<close> pending bits;
  each complete octet is emitted, and the bits left over at the end are dropped.
\<close>

fun regroup :: "nat \<Rightarrow> nat \<Rightarrow> nat \<Rightarrow> nat list \<Rightarrow> byte list" where
  "regroup width bits acc [] = []"
| "regroup width bits acc (v # vs) =
     (if 8 \<le> bits + width
      then of_nat ((acc * 2 ^ width + v) div 2 ^ (bits + width - 8))
           # regroup width (bits + width - 8) ((acc * 2 ^ width + v) mod 2 ^ (bits + width - 8)) vs
      else regroup width (bits + width) (acc * 2 ^ width + v) vs)"

definition ascii_whitespace :: "char \<Rightarrow> bool" where
  "ascii_whitespace c \<longleftrightarrow> c \<in> set [CHR 0x09, CHR 0x0A, CHR 0x0C, CHR 0x0D, CHR 0x20]"

definition strip_b64_padding :: "string \<Rightarrow> string" where
  "strip_b64_padding s =
     (if length s mod 4 \<noteq> 0 then s
      else if 2 \<le> length s \<and> drop (length s - 2) s = ''=='' then take (length s - 2) s
      else if 1 \<le> length s \<and> drop (length s - 1) s = ''='' then take (length s - 1) s
      else s)"

definition invalid_character_error :: js_error where
  "invalid_character_error =
     JsError ''InvalidCharacterError'' ''The string to be decoded is not correctly encoded.''"

definition atob_stripped :: "string \<Rightarrow> js_error + byte list" where
  "atob_stripped s =
     (if length s mod 4 = 1 then Inl invalid_character_error
      else case those (map b64_value s) of
             None \<Rightarrow> Inl invalid_character_error
           | Some vs \<Rightarrow> Inr (regroup 6 0 0 vs))"

definition atob :: "string \<Rightarrow> js_error + byte list" where
  "atob s = atob_stripped (strip_b64_padding (filter (\<lambda>c. \<not> ascii_whitespace c) s))"

definition b32_value :: "char \<Rightarrow> nat option" where
  "b32_value c =
     (if 65 \<le> (of_char c :: nat) \<and> (of_char c :: nat) \<le> 90 then Some (of_char c - 65)
      else if 50 \<le> (of_char c :: nat) \<and> (of_char c :: nat) \<le> 55 then Some (of_char c - 24)
      else None)"

definition invalid_base32_error :: js_error where
  "invalid_base32_error = JsError ''TypeError'' ''Invalid character found''"

definition fromBase32 :: "string \<Rightarrow> js_error + byte list" where
  "fromBase32 s =
     (case those (map b32_value (rev (dropWhile (\<lambda>c. c = CHR ''='') (rev s)))) of
        None \<Rightarrow> Inl invalid_base32_error
      | Some vs \<Rightarrow> Inr (regroup 5 0 0 vs))"

text \<open>\<open>new TextEncoder().encode(s)\<close>: the characters of a \<open>string\<close> are already octets.\<close>

definition text_encode :: "string \<Rightarrow> byte list" where
  "text_encode s = map (\<lambda>c. of_nat (of_char c)) s"

text \<open>
  \<open>s.trim()\<close> removes leading and trailing white space and line terminators. Text is held
  in UTF-8 (which is why \<open>text_encode\<close> keeps the octets), so each character that
  \<open>String.prototype.trim\<close> removes is the octet sequence listed here: U+0009 to U+000D,
  U+0020, U+00A0, U+1680, U+2000 to U+200A, U+2028, U+2029, U+202F, U+205F, U+3000 and
  U+FEFF.
\<close>

definition js_whitespace :: "string list" where
  "js_whitespace =
     [[CHR 0x09], [CHR 0x0A], [CHR 0x0B], [CHR 0x0C], [CHR 0x0D], [CHR 0x20],
      [CHR 0xC2, CHR 0xA0], [CHR 0xE1, CHR 0x9A, CHR 0x80],
      [CHR 0xE2, CHR 0x80, CHR 0x80], [CHR 0xE2, CHR 0x80, CHR 0x81],
      [CHR 0xE2, CHR 0x80, CHR 0x82], [CHR 0xE2, CHR 0x80, CHR 0x83],
      [CHR 0xE2, CHR 0x80, CHR 0x84], [CHR 0xE2, CHR 0x80, CHR 0x85],
      [CHR 0xE2, CHR 0x80, CHR 0x86], [CHR 0xE2, CHR 0x80, CHR 0x87],
      [CHR 0xE2, CHR 0x80, CHR 0x88], [CHR 0xE2, CHR 0x80, CHR 0x89],
      [CHR 0xE2, CHR 0x80, CHR 0x8A], [CHR 0xE2, CHR 0x80, CHR 0xA8],
      [CHR 0xE2, CHR 0x80, CHR 0xA9], [CHR 0xE2, CHR 0x80, CHR 0xAF],
      [CHR 0xE2, CHR 0x81, CHR 0x9F], [CHR 0xE3, CHR 0x80, CHR 0x80],
      [CHR 0xEF, CHR 0xBB, CHR 0xBF]]"

text \<open>Removes, from the front of \<open>s\<close>, every one of the sequences \<open>ws\<close> that starts it.\<close>

function strip_leading :: "string list \<Rightarrow> string \<Rightarrow> string" where
  "strip_leading ws s =
     (case find (\<lambda>w. w \<noteq> [] \<and> take (length w) s = w) ws of
        None \<Rightarrow> s
      | Some w \<Rightarrow> strip_leading ws (drop (length w) s))"
  by pat_completeness auto

termination
proof (relation "measure (\<lambda>(ws, s). length s)")
  show "wf (measure (\<lambda>(ws, s). length s))"
    by simp
next
  fix ws :: "string list" and s w :: string
  assume "find (\<lambda>w. w \<noteq> [] \<and> take (length w) s = w) ws = Some w"
  then have w: "w \<noteq> []" "take (length w) s = w"
    by (auto simp add: find_Some_iff)
  have "length (take (length w) s) = length w"
    using w(2) by simp
  then have "length w \<le> length s"
    by simp
  with w(1) show "((ws, drop (length w) s), (ws, s)) \<in> measure (\<lambda>(ws, s). length s)"
    by (cases w) auto
qed

declare strip_leading.simps [simp del]

definition trim :: "string \<Rightarrow> string" where
  "trim s =
     rev (strip_leading (map rev js_whitespace) (rev (strip_leading js_whitespace s)))"
section \<open>The credential store\<close>

text \<open>
  The two tables of \<open>supabase/migrations\<close> the pages use, column for column. Time stamps
  are seconds since the epoch; \<open>NULL\<close> in a nullable column is \<open>None\<close>.
\<close>

record user_2fa_row =
  tf_id :: string
  tf_user_id :: string
  tf_secret :: string
  tf_enabled :: bool
  tf_backup_codes :: "string list option"
  tf_created_at :: int
  tf_updated_at :: int

record passkey_row =
  pk_id :: string
  pk_user_id :: string
  pk_credential_id :: string
  pk_public_key :: string
  pk_counter :: int
  pk_device_name :: "string option"
  pk_created_at :: int
  pk_last_used_at :: "int option"

record database =
  user_2fa :: "user_2fa_row list"
  user_passkeys :: "passkey_row list"

text \<open>The requests the pages send through the Supabase client.\<close>

datatype db_call =
    Select_2fa_enabled string
  | Select_2fa_secret string
  | Select_passkeys string
  | Select_passkey_id string
  | Select_credential_ids string
  | Insert_2fa "string option" string bool
  | Insert_passkey string string string string
  | Update_2fa_enabled string bool
  | Delete_passkey string

section \<open>The platform\<close>

text \<open>
  What a handler's run receives from outside the sources: the browser (frame nesting,
  WebAuthn support, host name, random numbers, the two credential ceremonies), the clock
  and the store's service. A ceremony either rejects with an exception (\<open>Inl\<close>) or
  resolves to a credential or \<open>null\<close>. \<open>store_fault\<close> is the failure the service answers a
  request with for reasons outside the two tables (network, row-level security, foreign
  keys, a value that is not of its column's type); \<open>None\<close> when it serves the request.
  \<open>unix_time\<close> is the browser's \<open>Date.now()\<close> in whole seconds, \<open>server_now\<close> the \<open>NOW()\<close> of
  the database, \<open>gen_random_uuid\<close> the id it gives the next inserted row.
\<close>

record creation_options =
  cr_challenge :: "byte list"
  cr_rp_name :: string
  cr_rp_id :: string
  cr_user_id :: "byte list"
  cr_user_name :: string
  cr_user_displayName :: string
  cr_pubKeyCredParams :: "(int \<times> string) list"
  cr_authenticatorAttachment :: string
  cr_userVerification :: string
  cr_requireResidentKey :: bool
  cr_timeout :: nat
  cr_attestation :: string

record request_options =
  rq_challenge :: "byte list"
  rq_allowCredentials :: "(string \<times> byte list) list"
  rq_timeout :: nat
  rq_userVerification :: string

record attestation_credential =
  at_rawId :: "byte list"
  at_publicKey :: "byte list option"

record assertion_credential =
  as_rawId :: "byte list"
  as_authenticatorData :: "byte list"
  as_clientDataJSON :: "byte list"
  as_signature :: "byte list"

record platform =
  in_iframe :: bool
  has_PublicKeyCredential :: bool
  location_hostname :: string
  random_byte :: "nat \<Rightarrow> byte"
  credentials_create :: "creation_options \<Rightarrow> js_error + attestation_credential option"
  credentials_get :: "request_options \<Rightarrow> js_error + assertion_credential option"
  store_fault :: "db_call \<Rightarrow> js_error option"
  unix_time :: int
  server_now :: int
  gen_random_uuid :: string

text \<open>\<open>crypto.getRandomValues(new Uint8Array(n))\<close>.\<close>

definition getRandomValues :: "platform \<Rightarrow> nat \<Rightarrow> byte list" where
  "getRandomValues env n = map (random_byte env) [0..<n]"

subsection \<open>Requests against the tables\<close>

text \<open>
  Each request answers \<open>{data, error}\<close>: \<open>Inl\<close> the error, \<open>Inr\<close> the data. \<open>.single()\<close> is
  an error unless exactly one row matches. The inserts enforce the constraints of the
  migration: \<open>user_id NOT NULL\<close>, \<open>UNIQUE\<close> on \<open>user_2fa.user_id\<close> and on
  \<open>user_passkeys.credential_id\<close>, the primary keys; the column defaults fill the rest. The
  wording of the service's error messages is not fixed by the sources; no property below
  depends on it.
\<close>

definition single_row_error :: js_error where
  "single_row_error = JsError [] ''JSON object requested, multiple (or no) rows returned''"

definition not_null_violation :: js_error where
  "not_null_violation = JsError [] ''null value in column user_id violates not-null constraint''"

definition unique_violation :: js_error where
  "unique_violation = JsError [] ''duplicate key value violates unique constraint''"

definition single :: "'a list \<Rightarrow> js_error + 'a" where
  "single rows = (case rows of [r] \<Rightarrow> Inr r | _ \<Rightarrow> Inl single_row_error)"

definition select_2fa_enabled :: "platform \<Rightarrow> database \<Rightarrow> string \<Rightarrow> js_error + bool" where
  "select_2fa_enabled env db uid =
     (case store_fault env (Select_2fa_enabled uid) of
        Some e \<Rightarrow> Inl e
      | None \<Rightarrow> single (map tf_enabled (filter (\<lambda>r. tf_user_id r = uid) (user_2fa db))))"

definition select_2fa_secret :: "platform \<Rightarrow> database \<Rightarrow> string \<Rightarrow> js_error + string" where
  "select_2fa_secret env db uid =
     (case store_fault env (Select_2fa_secret uid) of
        Some e \<Rightarrow> Inl e
      | None \<Rightarrow> single (map tf_secret (filter (\<lambda>r. tf_user_id r = uid) (user_2fa db))))"

definition select_passkeys :: "platform \<Rightarrow> database \<Rightarrow> string \<Rightarrow> js_error + passkey_row list" where
  "select_passkeys env db uid =
     (case store_fault env (Select_passkeys uid) of
        Some e \<Rightarrow> Inl e
      | None \<Rightarrow> Inr (filter (\<lambda>r. pk_user_id r = uid) (user_passkeys db)))"

definition select_passkey_id :: "platform \<Rightarrow> database \<Rightarrow> string \<Rightarrow> js_error + string list" where
  "select_passkey_id env db uid =
     (case store_fault env (Select_passkey_id uid) of
        Some e \<Rightarrow> Inl e
      | None \<Rightarrow> Inr (take 1 (map pk_id (filter (\<lambda>r. pk_user_id r = uid) (user_passkeys db)))))"

definition select_credential_ids :: "platform \<Rightarrow> database \<Rightarrow> string \<Rightarrow> js_error + string list" where
  "select_credential_ids env db uid =
     (case store_fault env (Select_credential_ids uid) of
        Some e \<Rightarrow> Inl e
      | None \<Rightarrow> Inr (map pk_credential_id (filter (\<lambda>r. pk_user_id r = uid) (user_passkeys db))))"

definition new_2fa_row :: "platform \<Rightarrow> string \<Rightarrow> string \<Rightarrow> bool \<Rightarrow> user_2fa_row" where
  "new_2fa_row env uid secret enabled =
     \<lparr>tf_id = gen_random_uuid env, tf_user_id = uid, tf_secret = secret, tf_enabled = enabled,
      tf_backup_codes = None, tf_created_at = server_now env, tf_updated_at = server_now env\<rparr>"

definition insert_2fa ::
  "platform \<Rightarrow> database \<Rightarrow> string option \<Rightarrow> string \<Rightarrow> bool \<Rightarrow> js_error option \<times> database" where
  "insert_2fa env db user_id secret enabled =
     (case store_fault env (Insert_2fa user_id secret enabled) of
        Some e \<Rightarrow> (Some e, db)
      | None \<Rightarrow>
          (case user_id of
             None \<Rightarrow> (Some not_null_violation, db)
           | Some uid \<Rightarrow>
               if uid \<in> set (map tf_user_id (user_2fa db))
                  \<or> gen_random_uuid env \<in> set (map tf_id (user_2fa db))
               then (Some unique_violation, db)
               else (None, db\<lparr>user_2fa := user_2fa db @ [new_2fa_row env uid secret enabled]\<rparr>)))"

definition new_passkey_row :: "platform \<Rightarrow> string \<Rightarrow> string \<Rightarrow> string \<Rightarrow> string \<Rightarrow> passkey_row" where
  "new_passkey_row env uid credential_id public_key device_name =
     \<lparr>pk_id = gen_random_uuid env, pk_user_id = uid, pk_credential_id = credential_id,
      pk_public_key = public_key, pk_counter = 0, pk_device_name = Some device_name,
      pk_created_at = server_now env, pk_last_used_at = None\<rparr>"

definition insert_passkey ::
  "platform \<Rightarrow> database \<Rightarrow> string \<Rightarrow> string \<Rightarrow> string \<Rightarrow> string \<Rightarrow> js_error option \<times> database" where
  "insert_passkey env db uid credential_id public_key device_name =
     (case store_fault env (Insert_passkey uid credential_id public_key device_name) of
        Some e \<Rightarrow> (Some e, db)
      | None \<Rightarrow>
          if credential_id \<in> set (map pk_credential_id (user_passkeys db))
             \<or> gen_random_uuid env \<in> set (map pk_id (user_passkeys db))
          then (Some unique_violation, db)
          else (None, db\<lparr>user_passkeys := user_passkeys db
                  @ [new_passkey_row env uid credential_id public_key device_name]\<rparr>))"

text \<open>The trigger \<open>update_user_2fa_updated_at\<close> stamps every updated row.\<close>

definition update_2fa_enabled ::
  "platform \<Rightarrow> database \<Rightarrow> string \<Rightarrow> bool \<Rightarrow> js_error option \<times> database" where
  "update_2fa_enabled env db uid enabled =
     (case store_fault env (Update_2fa_enabled uid enabled) of
        Some e \<Rightarrow> (Some e, db)
      | None \<Rightarrow>
          (None, db\<lparr>user_2fa :=
             map (\<lambda>r. if tf_user_id r = uid
                       then r\<lparr>tf_enabled := enabled, tf_updated_at := server_now env\<rparr> else r)
               (user_2fa db)\<rparr>))"

definition delete_passkey :: "platform \<Rightarrow> database \<Rightarrow> string \<Rightarrow> js_error option \<times> database" where
  "delete_passkey env db pid =
     (case store_fault env (Delete_passkey pid) of
        Some e \<Rightarrow> (Some e, db)
      | None \<Rightarrow> (None, db\<lparr>user_passkeys := filter (\<lambda>r. pk_id r \<noteq> pid) (user_passkeys db)\<rparr>))"

section \<open>What a handler does\<close>

text \<open>
  A handler takes the platform, the page's props and state and the tables, and returns the
  new state, the new tables and, in order, what it did that can be seen from outside:
  toasts, navigation, console output, store requests and ceremonies.
\<close>

datatype effect =
    Toast_error string
  | Toast_success string
  | Navigate string "string option"
  | Console_error js_error
  | Store db_call
  | Ceremony_create creation_options
  | Ceremony_get request_options

text \<open>The route the browser shows after the effects, starting from \<open>route\<close>.\<close>

fun route_after :: "string \<Rightarrow> effect list \<Rightarrow> string" where
  "route_after route [] = route"
| "route_after route (Navigate path st # es) = route_after path es"
| "route_after route (e # es) = route_after route es"

text \<open>
  The steps of the verification flow, as \<open>App.tsx\<close> routes them: each step is the page
  mounted at its route, and \<open>Authenticated\<close> is the dashboard.
\<close>

datatype flow_state =
  AwaitingPassword | AwaitingMethodChoice | AwaitingTOTPCode | AwaitingConfirmationCode
  | Authenticated | Elsewhere

definition flow_of_route :: "string \<Rightarrow> flow_state" where
  "flow_of_route route =
     (if route = ''/auth/login'' then AwaitingPassword
      else if route = ''/auth/choose-2fa'' then AwaitingMethodChoice
      else if route = ''/auth/verify-2fa'' then AwaitingTOTPCode
      else if route = ''/auth/setup-2fa'' then AwaitingConfirmationCode
      else if route = ''/dashboard'' then Authenticated
      else Elsewhere)"

section \<open>Choose2FA\<close>

text \<open>
  The pages take the account id from \<open>location.state?.userId\<close>: \<open>None\<close> is \<open>undefined\<close>. The
  test \<open>!userId\<close> holds for \<open>undefined\<close> and for the empty string.
\<close>

definition falsy :: "string option \<Rightarrow> bool" where
  "falsy userId \<longleftrightarrow> userId = None \<or> userId = Some []"

record choose_2fa =
  c_loading :: bool
  c_hasPasskeys :: bool

definition Choose2FA_init :: choose_2fa where
  "Choose2FA_init = \<lparr>c_loading = False, c_hasPasskeys = False\<rparr>"

definition checkPasskeys ::
  "platform \<Rightarrow> string option \<Rightarrow> choose_2fa \<Rightarrow> database \<Rightarrow> choose_2fa \<times> database \<times> effect list" where
  "checkPasskeys env userId page db =
     (case userId of
        None \<Rightarrow> (page, db, [])
      | Some uid \<Rightarrow>
          if falsy userId then (page, db, [])
          else (case select_passkey_id env db uid of
                  Inr (i # ids) \<Rightarrow>
                    (page\<lparr>c_hasPasskeys := True\<rparr>, db, [Store (Select_passkey_id uid)])
                | _ \<Rightarrow> (page, db, [Store (Select_passkey_id uid)])))"

text \<open>
  What the page renders: a redirect to the login without an account id, else the buttons
  (disabled while \<open>loading\<close>), the passkey button only under \<open>hasPasskeys\<close>. The handlers
  below run from these buttons, hence with an account id.
\<close>

datatype second_factor = Use_code | Use_passkey

datatype rendering = Redirect string | Buttons "second_factor list"

definition Choose2FA_render :: "string option \<Rightarrow> choose_2fa \<Rightarrow> rendering" where
  "Choose2FA_render userId page =
     (if falsy userId then Redirect ''/auth/login''
      else Buttons (Use_code # (if c_hasPasskeys page then [Use_passkey] else [])))"

definition offered :: "rendering \<Rightarrow> second_factor list" where
  "offered r = (case r of Redirect path \<Rightarrow> [] | Buttons ms \<Rightarrow> ms)"

text \<open>The page as the method-choice step shows it: mounted, with \<open>checkPasskeys\<close> run.\<close>

definition Choose2FA_mounted :: "platform \<Rightarrow> string option \<Rightarrow> database \<Rightarrow> choose_2fa" where
  "Choose2FA_mounted env userId db = fst (checkPasskeys env userId Choose2FA_init db)"

definition handleUseCode ::
  "string \<Rightarrow> choose_2fa \<Rightarrow> database \<Rightarrow> choose_2fa \<times> database \<times> effect list" where
  "handleUseCode uid page db = (page, db, [Navigate ''/auth/verify-2fa'' (Some uid)])"

definition assertion_options :: "platform \<Rightarrow> byte list list \<Rightarrow> request_options" where
  "assertion_options env raw_ids =
     \<lparr>rq_challenge = getRandomValues env 32,
      rq_allowCredentials = map (\<lambda>raw. (''public-key'', raw)) raw_ids,
      rq_timeout = 60000,
      rq_userVerification = ''preferred''\<rparr>"

text \<open>\<open>passkeys.map(pk => atob(pk.credential_id) ...)\<close>: the first id that is not base64 throws.\<close>

fun decode_ids :: "string list \<Rightarrow> js_error + byte list list" where
  "decode_ids [] = Inr []"
| "decode_ids (i # ids) =
     (case atob i of
        Inl e \<Rightarrow> Inl e
      | Inr raw \<Rightarrow> (case decode_ids ids of Inl e \<Rightarrow> Inl e | Inr raws \<Rightarrow> Inr (raw # raws)))"

text \<open>
  The body of the \<open>try\<close> of \<open>handleUsePasskey\<close>: its effects so far and the exception it
  ends with, if any (an early \<open>return\<close> and the normal end both leave none).
\<close>

definition usePasskey_ceremony ::
  "platform \<Rightarrow> string \<Rightarrow> byte list list \<Rightarrow> effect list \<times> js_error option" where
  "usePasskey_ceremony env uid raw_ids =
     (case credentials_get env (assertion_options env raw_ids) of
        Inl e \<Rightarrow>
          ([Store (Select_credential_ids uid), Ceremony_get (assertion_options env raw_ids)],
           Some e)
      | Inr None \<Rightarrow>
          ([Store (Select_credential_ids uid), Ceremony_get (assertion_options env raw_ids)],
           Some (JsError ''Error'' ''Failed to authenticate with passkey''))
      | Inr (Some credential) \<Rightarrow>
          ([Store (Select_credential_ids uid), Ceremony_get (assertion_options env raw_ids),
            Toast_success ''Passkey verified successfully!'', Navigate ''/dashboard'' None],
           None))"

definition usePasskey_try ::
  "platform \<Rightarrow> string \<Rightarrow> database \<Rightarrow> effect list \<times> js_error option" where
  "usePasskey_try env uid db =
     (if \<not> has_PublicKeyCredential env
      then ([], Some (JsError ''Error'' ''Passkeys are not supported on this browser''))
      else case select_credential_ids env db uid of
             Inl fetchError \<Rightarrow> ([Store (Select_credential_ids uid)], Some fetchError)
           | Inr [] \<Rightarrow>
               ([Store (Select_credential_ids uid),
                 Toast_error ''No passkeys found. Please use 2FA code.''], None)
           | Inr (i # ids) \<Rightarrow>
               (case decode_ids (i # ids) of
                  Inl e \<Rightarrow> ([Store (Select_credential_ids uid)], Some e)
                | Inr raw_ids \<Rightarrow> usePasskey_ceremony env uid raw_ids))"

definition usePasskey_catch :: "js_error \<Rightarrow> effect list" where
  "usePasskey_catch error =
     [Console_error error,
      Toast_error (if err_name error = ''NotAllowedError''
                   then ''Passkey authentication was cancelled''
                   else ''Failed to authenticate with passkey: '' @ err_message error)]"

definition handleUsePasskey ::
  "platform \<Rightarrow> string \<Rightarrow> choose_2fa \<Rightarrow> database \<Rightarrow> choose_2fa \<times> database \<times> effect list" where
  "handleUsePasskey env uid page db =
     (if in_iframe env
      then (page, db,
            [Toast_error
               ''Passkeys cannot be used in preview mode. Please use 2FA code or deploy your app.''])
      else case usePasskey_try env uid db of
             (effects, None) \<Rightarrow> (page\<lparr>c_loading := False\<rparr>, db, effects)
           | (effects, Some error) \<Rightarrow>
               (page\<lparr>c_loading := False\<rparr>, db, effects @ usePasskey_catch error))"

section \<open>Verify2FA\<close>

record verify_2fa =
  v_token :: string
  v_loading :: bool

text \<open>\<open>error.message || fallback\<close>: an empty message is falsy.\<close>

definition message_or :: "js_error \<Rightarrow> string \<Rightarrow> string" where
  "message_or error fallback = (if err_message error = [] then fallback else err_message error)"

text \<open>
  \<open>new OTPAuth.TOTP({..., secret: OTPAuth.Secret.fromBase32(secret)}).validate({token,
  window: 1})\<close>: decoding the secret may throw; \<open>Inr None\<close> is the \<open>null\<close> of no match.
\<close>

definition validate_token :: "platform \<Rightarrow> string \<Rightarrow> string \<Rightarrow> js_error + int option" where
  "validate_token env secret token =
     (case fromBase32 secret of
        Inl e \<Rightarrow> Inl e
      | Inr key \<Rightarrow> Inr (totp_validate key token 1 (unix_time env)))"

definition verify_try ::
  "platform \<Rightarrow> string option \<Rightarrow> string \<Rightarrow> database \<Rightarrow> effect list \<times> js_error option" where
  "verify_try env userId token db =
     (case userId of
        None \<Rightarrow> ([], Some (JsError ''Error'' ''User ID not found''))
      | Some uid \<Rightarrow>
          if falsy userId then ([], Some (JsError ''Error'' ''User ID not found''))
          else
          (case select_2fa_secret env db uid of
             Inl error \<Rightarrow> ([Store (Select_2fa_secret uid)], Some error)
           | Inr secret \<Rightarrow>
               (case validate_token env secret token of
                  Inl e \<Rightarrow> ([Store (Select_2fa_secret uid)], Some e)
                | Inr None \<Rightarrow>
                    ([Store (Select_2fa_secret uid),
                      Toast_error ''Invalid code. Please try again.''], None)
                | Inr (Some delta) \<Rightarrow>
                    ([Store (Select_2fa_secret uid),
                      Toast_success ''Verification successful!'',
                      Navigate ''/dashboard'' None], None))))"

definition Verify2FA_handleVerify ::
  "platform \<Rightarrow> string option \<Rightarrow> verify_2fa \<Rightarrow> database \<Rightarrow> verify_2fa \<times> database \<times> effect list" where
  "Verify2FA_handleVerify env userId page db =
     (case verify_try env userId (v_token page) db of
        (effects, None) \<Rightarrow> (page\<lparr>v_loading := False\<rparr>, db, effects)
      | (effects, Some error) \<Rightarrow>
          (page\<lparr>v_loading := False\<rparr>, db,
           effects @ [Toast_error (message_or error ''Verification failed'')]))"

section \<open>Setup2FA\<close>

record setup_2fa =
  s_qrCode :: string
  s_secret :: string
  s_token :: string
  s_copied :: bool
  s_loading :: bool

definition setup_try ::
  "platform \<Rightarrow> string option \<Rightarrow> setup_2fa \<Rightarrow> database
     \<Rightarrow> database \<times> effect list \<times> js_error option" where
  "setup_try env userId page db =
     (case validate_token env (s_secret page) (s_token page) of
        Inl e \<Rightarrow> (db, [], Some e)
      | Inr None \<Rightarrow> (db, [Toast_error ''Invalid code. Please try again.''], None)
      | Inr (Some delta) \<Rightarrow>
          (case insert_2fa env db userId (s_secret page) True of
             (Some error, db') \<Rightarrow>
               (db', [Store (Insert_2fa userId (s_secret page) True)], Some error)
           | (None, db') \<Rightarrow>
               (db', [Store (Insert_2fa userId (s_secret page) True),
                      Toast_success ''2FA setup complete!'', Navigate ''/dashboard'' None],
                None)))"

definition Setup2FA_handleVerify ::
  "platform \<Rightarrow> string option \<Rightarrow> setup_2fa \<Rightarrow> database \<Rightarrow> setup_2fa \<times> database \<times> effect list" where
  "Setup2FA_handleVerify env userId page db =
     (case setup_try env userId page db of
        (db', effects, None) \<Rightarrow> (page\<lparr>s_loading := False\<rparr>, db', effects)
      | (db', effects, Some error) \<Rightarrow>
          (page\<lparr>s_loading := False\<rparr>, db',
           effects @ [Toast_error (message_or error ''Failed to setup 2FA'')]))"

section \<open>Settings\<close>

record auth_user =
  user_id :: string
  user_email :: "string option"

record settings =
  twoFAEnabled :: bool
  passkeys :: "passkey_row list"
  passkeyName :: string
  st_loading :: bool

definition Settings_init :: settings where
  "Settings_init = \<lparr>twoFAEnabled = True, passkeys = [], passkeyName = [], st_loading = False\<rparr>"

definition load_twoFA :: "platform \<Rightarrow> database \<Rightarrow> auth_user \<Rightarrow> settings \<Rightarrow> settings" where
  "load_twoFA env db u page =
     (case select_2fa_enabled env db (user_id u) of
        Inl e \<Rightarrow> page
      | Inr enabled \<Rightarrow> page\<lparr>twoFAEnabled := enabled\<rparr>)"

definition load_passkeys :: "platform \<Rightarrow> database \<Rightarrow> auth_user \<Rightarrow> settings \<Rightarrow> settings" where
  "load_passkeys env db u page =
     (case select_passkeys env db (user_id u) of
        Inl e \<Rightarrow> page
      | Inr rows \<Rightarrow> page\<lparr>passkeys := rows\<rparr>)"

definition loadSettings ::
  "platform \<Rightarrow> auth_user option \<Rightarrow> settings \<Rightarrow> database \<Rightarrow> settings \<times> database \<times> effect list" where
  "loadSettings env user page db =
     (case user of
        None \<Rightarrow> (page, db, [])
      | Some u \<Rightarrow>
          (load_passkeys env db u (load_twoFA env db u page), db,
           [Store (Select_2fa_enabled (user_id u)), Store (Select_passkeys (user_id u))]))"

definition toggleTwoFA ::
  "platform \<Rightarrow> auth_user option \<Rightarrow> settings \<Rightarrow> database \<Rightarrow> settings \<times> database \<times> effect list" where
  "toggleTwoFA env user page db =
     (case user of
        None \<Rightarrow> (page, db, [])
      | Some u \<Rightarrow>
          (case update_2fa_enabled env db (user_id u) (\<not> twoFAEnabled page) of
             (Some error, db') \<Rightarrow>
               (page\<lparr>st_loading := False\<rparr>, db',
                [Store (Update_2fa_enabled (user_id u) (\<not> twoFAEnabled page)),
                 Toast_error ''Failed to update 2FA settings''])
           | (None, db') \<Rightarrow>
               (page\<lparr>twoFAEnabled := \<not> twoFAEnabled page, st_loading := False\<rparr>, db',
                [Store (Update_2fa_enabled (user_id u) (\<not> twoFAEnabled page)),
                 Toast_success (''2FA '' @ (if \<not> twoFAEnabled page then ''enabled''
                                            else ''disabled''))])))"

text \<open>\<open>user.email || ''\<close>.\<close>

definition email_or_empty :: "auth_user \<Rightarrow> string" where
  "email_or_empty u = (case user_email u of None \<Rightarrow> [] | Some e \<Rightarrow> e)"

definition attestation_options :: "platform \<Rightarrow> auth_user \<Rightarrow> creation_options" where
  "attestation_options env u =
     \<lparr>cr_challenge = getRandomValues env 32,
      cr_rp_name = ''Secure Auth App'',
      cr_rp_id = location_hostname env,
      cr_user_id = text_encode (user_id u),
      cr_user_name = email_or_empty u,
      cr_user_displayName = email_or_empty u,
      cr_pubKeyCredParams = [(- 7, ''public-key''), (- 257, ''public-key'')],
      cr_authenticatorAttachment = ''platform'',
      cr_userVerification = ''required'',
      cr_requireResidentKey = False,
      cr_timeout = 60000,
      cr_attestation = ''none''\<rparr>"

text \<open>\<open>new Uint8Array(response.getPublicKey()!)\<close> is empty when the key is \<open>null\<close>.\<close>

definition public_key_bytes :: "attestation_credential \<Rightarrow> byte list" where
  "public_key_bytes credential = (case at_publicKey credential of None \<Rightarrow> [] | Some k \<Rightarrow> k)"

definition addPasskey_catch :: "js_error \<Rightarrow> effect" where
  "addPasskey_catch error =
     Toast_error (if err_name error = ''NotAllowedError''
                  then ''Passkey registration was cancelled''
                  else if err_name error = ''NotSupportedError''
                  then ''Passkeys are not supported on this device''
                  else ''Failed to add passkey: '' @ err_message error)"

text \<open>
  After a successful insert the handler clears the name and calls \<open>loadSettings()\<close>,
  which is not awaited: its two reads follow the toast.
\<close>

definition addPasskey_store ::
  "platform \<Rightarrow> auth_user \<Rightarrow> settings \<Rightarrow> database \<Rightarrow> attestation_credential
     \<Rightarrow> settings \<times> database \<times> effect list" where
  "addPasskey_store env u page db credential =
     (case insert_passkey env db (user_id u) (btoa (at_rawId credential))
             (btoa (public_key_bytes credential)) (passkeyName page) of
        (Some error, db') \<Rightarrow>
          (page\<lparr>st_loading := False\<rparr>, db',
           [Ceremony_create (attestation_options env u),
            Store (Insert_passkey (user_id u) (btoa (at_rawId credential))
                     (btoa (public_key_bytes credential)) (passkeyName page)),
            addPasskey_catch error])
      | (None, db') \<Rightarrow>
          (case loadSettings env (Some u) (page\<lparr>passkeyName := []\<rparr>) db' of
             (page', db'', reads) \<Rightarrow>
               (page'\<lparr>st_loading := False\<rparr>, db'',
                [Ceremony_create (attestation_options env u),
                 Store (Insert_passkey (user_id u) (btoa (at_rawId credential))
                          (btoa (public_key_bytes credential)) (passkeyName page)),
                 Toast_success ''Passkey added successfully''] @ reads)))"

definition addPasskey ::
  "platform \<Rightarrow> auth_user option \<Rightarrow> settings \<Rightarrow> database \<Rightarrow> settings \<times> database \<times> effect list" where
  "addPasskey env user page db =
     (case user of
        None \<Rightarrow> (page, db, [Toast_error ''Please enter a device name''])
      | Some u \<Rightarrow>
          if trim (passkeyName page) = [] then (page, db, [Toast_error ''Please enter a device name''])
          else (case credentials_create env (attestation_options env u) of
                  Inl error \<Rightarrow>
                    (page\<lparr>st_loading := False\<rparr>, db,
                     [Ceremony_create (attestation_options env u), addPasskey_catch error])
                | Inr None \<Rightarrow>
                    (page\<lparr>st_loading := False\<rparr>, db,
                     [Ceremony_create (attestation_options env u),
                      addPasskey_catch (JsError ''Error'' ''Failed to create credential'')])
                | Inr (Some credential) \<Rightarrow> addPasskey_store env u page db credential))"

definition removePasskey ::
  "platform \<Rightarrow> auth_user option \<Rightarrow> string \<Rightarrow> settings \<Rightarrow> database
     \<Rightarrow> settings \<times> database \<times> effect list" where
  "removePasskey env user pid page db =
     (case delete_passkey env db pid of
        (Some error, db') \<Rightarrow>
          (page\<lparr>st_loading := False\<rparr>, db',
           [Store (Delete_passkey pid), Toast_error ''Failed to remove passkey''])
      | (None, db') \<Rightarrow>
          (case loadSettings env user page db' of
             (page', db'', reads) \<Rightarrow>
               (page'\<lparr>st_loading := False\<rparr>, db'',
                [Store (Delete_passkey pid), Toast_success ''Passkey removed''] @ reads)))"

section \<open>A worked configuration\<close>

text \<open>
  One account, \<open>alice\<close>, with the RFC 6238 test key as its 2FA secret and one passkey
  whose raw id is the octets 1 to 5; a second account id, \<open>bob\<close>, with nothing stored.
  The platform is a top-level page with WebAuthn whose ceremonies succeed; the assertion
  it returns carries an empty signature. The clock shows 2025-01-01 00:01:00 UTC.
\<close>

definition alice :: string where
  "alice = ''3f2a6c1e-8b1d-4e5f-9a0b-1c2d3e4f5a61''"

definition bob :: string where
  "bob = ''7d9e0f1a-2b3c-4d5e-8f6a-7b8c9d0e1f22''"

definition demo_secret :: string where
  "demo_secret = ''GEZDGNBVGY3TQOJQGEZDGNBVGY3TQOJQ''"

definition demo_2fa_row :: user_2fa_row where
  "demo_2fa_row =
     \<lparr>tf_id = ''0a1b2c3d-0000-4000-8000-000000000001'', tf_user_id = alice, tf_secret = demo_secret, tf_enabled = True,
      tf_backup_codes = None, tf_created_at = 1735600000, tf_updated_at = 1735600000\<rparr>"

definition demo_passkey_row :: passkey_row where
  "demo_passkey_row =
     \<lparr>pk_id = ''0a1b2c3d-0000-4000-8000-000000000002'', pk_user_id = alice, pk_credential_id = ''AQIDBAU='',
      pk_public_key = ''MFkw'', pk_counter = 0, pk_device_name = Some ''My iPhone'',
      pk_created_at = 1735600000, pk_last_used_at = None\<rparr>"

definition demo_db :: database where
  "demo_db = \<lparr>user_2fa = [demo_2fa_row], user_passkeys = [demo_passkey_row]\<rparr>"

definition empty_db :: database where
  "empty_db = \<lparr>user_2fa = [], user_passkeys = []\<rparr>"

definition demo_attestation :: attestation_credential where
  "demo_attestation = \<lparr>at_rawId = [1, 2, 3, 4, 5], at_publicKey = Some [48, 89, 48]\<rparr>"

definition demo_assertion :: assertion_credential where
  "demo_assertion =
     \<lparr>as_rawId = [1, 2, 3, 4, 5], as_authenticatorData = [], as_clientDataJSON = [],
      as_signature = []\<rparr>"

definition demo_platform :: platform where
  "demo_platform =
     \<lparr>in_iframe = False, has_PublicKeyCredential = True,
      location_hostname = ''secure.example'', random_byte = (\<lambda>i. of_nat (7 * i + 3)),
      credentials_create = (\<lambda>options. Inr (Some demo_attestation)),
      credentials_get = (\<lambda>options. Inr (Some demo_assertion)),
      store_fault = (\<lambda>call. None), unix_time = 1735689660, server_now = 1735689661,
      gen_random_uuid = ''0a1b2c3d-0000-4000-8000-000000000003''\<rparr>"

definition demo_setup :: setup_2fa where
  "demo_setup =
     \<lparr>s_qrCode = ''data:image/png;base64,iVBORw0KGgo='', s_secret = demo_secret,
      s_token = ''475394'', s_copied = False, s_loading = True\<rparr>"

definition demo_settings :: settings where
  "demo_settings =
     \<lparr>twoFAEnabled = True, passkeys = [], passkeyName = ''My iPhone'', st_loading = False\<rparr>"

definition demo_user :: auth_user where
  "demo_user = \<lparr>user_id = alice, user_email = Some ''user@example.org''\<rparr>"

text \<open>
  A table of two accounts: the row of a third account id, \<open>carol\<close>, whose secret is another
  key, stored before \<open>alice\<close>'s.
\<close>

definition carol :: string where
  "carol = ''c4d5e6f7-3a2b-4c1d-9e8f-0a1b2c3d4e33''"

definition carol_secret :: string where
  "carol_secret = ''MNQXE33MFVZWKY3SMV2C223FPEWTAMRQ''"

definition carol_2fa_row :: user_2fa_row where
  "carol_2fa_row =
     \<lparr>tf_id = ''0a1b2c3d-0000-4000-8000-000000000004'', tf_user_id = carol, tf_secret = carol_secret,
      tf_enabled = True, tf_backup_codes = None, tf_created_at = 1735500000,
      tf_updated_at = 1735500000\<rparr>"

definition two_account_db :: database where
  "two_account_db = \<lparr>user_2fa = [carol_2fa_row, demo_2fa_row], user_passkeys = [demo_passkey_row]\<rparr>"

section \<open>Evaluating the engine\<close>

lemma replicate_numeral: "replicate (numeral n) x = x # replicate (pred_numeral n) x"
  by (simp add: numeral_eq_Suc)

lemmas sha1_block_eval =
  sha1_block_def schedule_step_def be32_def rotl32_def add32_def not32_def sha1_f_def sha1_k_def

lemma hmac_sha1_short_key:
  "length key \<le> 64 \<Longrightarrow> hmac_sha1 key msg =
     sha1 (map (\<lambda>b. b XOR 0x5c) (key @ replicate (64 - length key) 0)
           @ sha1 (map (\<lambda>b. b XOR 0x36) (key @ replicate (64 - length key) 0) @ msg))"
  by (simp add: hmac_sha1_def Let_def)

lemmas hotp_eval =
  hotp_def sha1_def sha1_init_def sha1_pad_def u64_bytes_def u32_bytes_def
  dynamic_truncate_def six_digits_def digit_char_def replicate_numeral hmac_sha1_short_key

lemma K1_ipad_block:
  "sha1_block
     (1732584193, 4023233417, 2562383102, 271733878, 3285377520)
     [7, 4, 5, 2, 3, 0, 1, 14, 15, 6, 7, 4, 5, 2, 3, 0, 1, 14, 15, 6, 54, 54, 54, 54,
     54, 54, 54, 54, 54, 54, 54, 54, 54, 54, 54, 54, 54, 54, 54, 54, 54, 54, 54, 54,
     54, 54, 54, 54, 54, 54, 54, 54, 54, 54, 54, 54, 54, 54, 54, 54, 54, 54, 54, 54] =
     (3418885260, 4120502956, 3183003698, 3667247555, 4167577637)"
  by (simp add: sha1_block_eval)

lemma K1_opad_block:
  "sha1_block
     (1732584193, 4023233417, 2562383102, 271733878, 3285377520)
     [109, 110, 111, 104, 105, 106, 107, 100, 101, 108, 109, 110, 111, 104, 105, 106,
     107, 100, 101, 108, 92, 92, 92, 92, 92, 92, 92, 92, 92, 92, 92, 92, 92, 92, 92,
     92, 92, 92, 92, 92, 92, 92, 92, 92, 92, 92, 92, 92, 92, 92, 92, 92, 92, 92, 92,
     92, 92, 92, 92, 92, 92, 92, 92, 92] =
     (2562571725, 1491106814, 2908544490, 985678603, 4262488101)"
  by (simp add: sha1_block_eval)

lemma K1_inner_prev:
  "sha1_block
     (3418885260, 4120502956, 3183003698, 3667247555, 4167577637)
     [0, 0, 0, 0, 3, 114, 209, 65, 128, 0, 0, 0, 0, 0, 0, 0, 0, 0, 0, 0, 0, 0, 0, 0, 0,
     0, 0, 0, 0, 0, 0, 0, 0, 0, 0, 0, 0, 0, 0, 0, 0, 0, 0, 0, 0, 0, 0, 0, 0, 0, 0, 0,
     0, 0, 0, 0, 0, 0, 0, 0, 0, 0, 2, 64] =
     (901164993, 1383357193, 4079073626, 1911340139, 404730318)"
  by (simp add: sha1_block_eval)

lemma K1_outer_prev:
  "sha1_block
     (2562571725, 1491106814, 2908544490, 985678603, 4262488101)
     [53, 182, 175, 193, 82, 116, 91, 9, 243, 33, 185, 90, 113, 236, 188, 107, 24, 31,
     177, 206, 128, 0, 0, 0, 0, 0, 0, 0, 0, 0, 0, 0, 0, 0, 0, 0, 0, 0, 0, 0, 0, 0, 0,
     0, 0, 0, 0, 0, 0, 0, 0, 0, 0, 0, 0, 0, 0, 0, 0, 0, 0, 0, 2, 160] =
     (3416756533, 664086777, 1898187883, 3654624539, 741931794)"
  by (simp add: sha1_block_eval)

lemma K1_inner_cur:
  "sha1_block
     (3418885260, 4120502956, 3183003698, 3667247555, 4167577637)
     [0, 0, 0, 0, 3, 114, 209, 66, 128, 0, 0, 0, 0, 0, 0, 0, 0, 0, 0, 0, 0, 0, 0, 0, 0,
     0, 0, 0, 0, 0, 0, 0, 0, 0, 0, 0, 0, 0, 0, 0, 0, 0, 0, 0, 0, 0, 0, 0, 0, 0, 0, 0,
     0, 0, 0, 0, 0, 0, 0, 0, 0, 0, 2, 64] =
     (2662031725, 3714940057, 3069870274, 2644396680, 4066451230)"
  by (simp add: sha1_block_eval)

lemma K1_outer_cur:
  "sha1_block
     (2562571725, 1491106814, 2908544490, 985678603, 4262488101)
     [158, 171, 97, 109, 221, 109, 124, 153, 182, 250, 128, 194, 157, 158, 74, 136,
     242, 97, 31, 30, 128, 0, 0, 0, 0, 0, 0, 0, 0, 0, 0, 0, 0, 0, 0, 0, 0, 0, 0, 0, 0,
     0, 0, 0, 0, 0, 0, 0, 0, 0, 0, 0, 0, 0, 0, 0, 0, 0, 0, 0, 0, 0, 2, 160] =
     (2606868774, 2191160164, 1396023612, 706864318, 2750159361)"
  by (simp add: sha1_block_eval)

lemma K1_inner_next:
  "sha1_block
     (3418885260, 4120502956, 3183003698, 3667247555, 4167577637)
     [0, 0, 0, 0, 3, 114, 209, 67, 128, 0, 0, 0, 0, 0, 0, 0, 0, 0, 0, 0, 0, 0, 0, 0, 0,
     0, 0, 0, 0, 0, 0, 0, 0, 0, 0, 0, 0, 0, 0, 0, 0, 0, 0, 0, 0, 0, 0, 0, 0, 0, 0, 0,
     0, 0, 0, 0, 0, 0, 0, 0, 0, 0, 2, 64] =
     (2004821058, 2628686344, 1950268318, 1836752828, 3682275457)"
  by (simp add: sha1_block_eval)

lemma K1_outer_next:
  "sha1_block
     (2562571725, 1491106814, 2908544490, 985678603, 4262488101)
     [119, 127, 36, 66, 156, 174, 146, 8, 116, 62, 187, 158, 109, 122, 159, 188, 219,
     123, 16, 129, 128, 0, 0, 0, 0, 0, 0, 0, 0, 0, 0, 0, 0, 0, 0, 0, 0, 0, 0, 0, 0, 0,
     0, 0, 0, 0, 0, 0, 0, 0, 0, 0, 0, 0, 0, 0, 0, 0, 0, 0, 0, 0, 2, 160] =
     (1306898066, 235077302, 678547953, 1648889038, 547214131)"
  by (simp add: sha1_block_eval)

lemma K1_inner_late:
  "sha1_block
     (3418885260, 4120502956, 3183003698, 3667247555, 4167577637)
     [0, 0, 0, 0, 3, 114, 215, 0, 128, 0, 0, 0, 0, 0, 0, 0, 0, 0, 0, 0, 0, 0, 0, 0, 0,
     0, 0, 0, 0, 0, 0, 0, 0, 0, 0, 0, 0, 0, 0, 0, 0, 0, 0, 0, 0, 0, 0, 0, 0, 0, 0, 0,
     0, 0, 0, 0, 0, 0, 0, 0, 0, 0, 2, 64] =
     (547456015, 3757651752, 469429050, 1536849897, 3364677592)"
  by (simp add: sha1_block_eval)

lemma K1_outer_late:
  "sha1_block
     (2562571725, 1491106814, 2908544490, 985678603, 4262488101)
     [32, 161, 132, 15, 223, 249, 55, 40, 27, 250, 235, 58, 91, 154, 119, 233, 200,
     140, 231, 216, 128, 0, 0, 0, 0, 0, 0, 0, 0, 0, 0, 0, 0, 0, 0, 0, 0, 0, 0, 0, 0, 0,
     0, 0, 0, 0, 0, 0, 0, 0, 0, 0, 0, 0, 0, 0, 0, 0, 0, 0, 0, 0, 2, 160] =
     (430006436, 2397047566, 1236938647, 1967475394, 2115569932)"
  by (simp add: sha1_block_eval)

lemma K2_ipad_block:
  "sha1_block
     (1732584193, 4023233417, 2562383102, 271733878, 3285377520)
     [125, 4, 27, 6, 6, 6, 6, 6, 6, 6, 6, 6, 6, 6, 1, 4, 0, 5, 15, 5, 54, 54, 54, 54,
     54, 54, 54, 54, 54, 54, 54, 54, 54, 54, 54, 54, 54, 54, 54, 54, 54, 54, 54, 54,
     54, 54, 54, 54, 54, 54, 54, 54, 54, 54, 54, 54, 54, 54, 54, 54, 54, 54, 54, 54] =
     (2138272501, 2883922854, 1798146074, 3798559803, 1067362384)"
  by (simp add: sha1_block_eval)

lemma K2_opad_block:
  "sha1_block
     (1732584193, 4023233417, 2562383102, 271733878, 3285377520)
     [23, 110, 113, 108, 108, 108, 108, 108, 108, 108, 108, 108, 108, 108, 107, 110,
     106, 111, 101, 111, 92, 92, 92, 92, 92, 92, 92, 92, 92, 92, 92, 92, 92, 92, 92,
     92, 92, 92, 92, 92, 92, 92, 92, 92, 92, 92, 92, 92, 92, 92, 92, 92, 92, 92, 92,
     92, 92, 92, 92, 92, 92, 92, 92, 92] =
     (74572939, 1383274656, 1470870903, 37216539, 3278775961)"
  by (simp add: sha1_block_eval)

lemma K2_inner_cur:
  "sha1_block
     (2138272501, 2883922854, 1798146074, 3798559803, 1067362384)
     [0, 0, 0, 0, 3, 114, 209, 66, 128, 0, 0, 0, 0, 0, 0, 0, 0, 0, 0, 0, 0, 0, 0, 0, 0,
     0, 0, 0, 0, 0, 0, 0, 0, 0, 0, 0, 0, 0, 0, 0, 0, 0, 0, 0, 0, 0, 0, 0, 0, 0, 0, 0,
     0, 0, 0, 0, 0, 0, 0, 0, 0, 0, 2, 64] =
     (1845435982, 3792314492, 3357574330, 286843964, 414848109)"
  by (simp add: sha1_block_eval)

lemma K2_outer_cur:
  "sha1_block
     (74572939, 1383274656, 1470870903, 37216539, 3278775961)
     [109, 255, 30, 78, 226, 10, 32, 124, 200, 32, 132, 186, 17, 24, 228, 60, 24, 186,
     20, 109, 128, 0, 0, 0, 0, 0, 0, 0, 0, 0, 0, 0, 0, 0, 0, 0, 0, 0, 0, 0, 0, 0, 0, 0,
     0, 0, 0, 0, 0, 0, 0, 0, 0, 0, 0, 0, 0, 0, 0, 0, 0, 0, 2, 160] =
     (871801303, 4059546348, 3888358990, 862138678, 2694675859)"
  by (simp add: sha1_block_eval)


lemma hotp_rfc_key_prev: "hotp rfc_key 57856321 = ''696213''"
  by (simp add: hotp_eval rfc_key_def K1_ipad_block K1_opad_block K1_inner_prev K1_outer_prev)

lemma hotp_rfc_key_cur: "hotp rfc_key 57856322 = ''475394''"
  by (simp add: hotp_eval rfc_key_def K1_ipad_block K1_opad_block K1_inner_cur K1_outer_cur)

lemma hotp_rfc_key_next: "hotp rfc_key 57856323 = ''908158''"
  by (simp add: hotp_eval rfc_key_def K1_ipad_block K1_opad_block K1_inner_next K1_outer_next)

lemma hotp_rfc_key_late: "hotp rfc_key 57857792 = ''475394''"
  by (simp add: hotp_eval rfc_key_def K1_ipad_block K1_opad_block K1_inner_late K1_outer_late)

lemma hotp_other_key_cur: "hotp other_key 57856322 = ''475394''"
  by (simp add: hotp_eval other_key_def K2_ipad_block K2_opad_block K2_inner_cur K2_outer_cur)

section \<open>Properties of the TOTP engine\<close>

lemma window_offsets_1: "window_offsets (Suc 0) = [0, - 1, 1]"
  by simp

lemma totp_validate_1:
  "totp_validate key token (Suc 0) now =
     (if hotp key (totp_counter now) = token then Some 0
      else if hotp key (totp_counter now - 1) = token then Some (- 1)
      else if hotp key (totp_counter now + 1) = token then Some 1
      else None)"
  unfolding totp_validate_def window_offsets_1 by simp

lemma totp_validate_None_iff:
  "totp_validate key token (Suc 0) now = None \<longleftrightarrow>
     token \<noteq> hotp key (totp_counter now) \<and> token \<noteq> hotp key (totp_counter now - 1)
     \<and> token \<noteq> hotp key (totp_counter now + 1)"
  unfolding totp_validate_1 by auto

lemma length_hotp: "length (hotp key c) = 6"
  by (simp add: hotp_def six_digits_def)

lemma hotp_collides: "\<exists>k1 k2. k1 \<noteq> k2 \<and> hotp k1 c = hotp k2 c"
proof (rule ccontr)
  assume "\<not> (\<exists>k1 k2. k1 \<noteq> k2 \<and> hotp k1 c = hotp k2 c)"
  then have inj: "inj (\<lambda>k. hotp k c)"
    by (auto simp: inj_on_def)
  have "range (\<lambda>k. hotp k c) \<subseteq> {xs. set xs \<subseteq> (UNIV :: char set) \<and> length xs = 6}"
    by (auto simp: length_hotp)
  moreover have "finite {xs. set xs \<subseteq> (UNIV :: char set) \<and> length xs = 6}"
    by (rule finite_lists_length_eq) simp
  ultimately have "finite (range (\<lambda>k. hotp k c))"
    by (rule finite_subset)
  then have "finite (UNIV :: byte list set)"
    using inj by (rule finite_imageD)
  then show False
    by (simp add: infinite_UNIV_listI)
qed

lemma counter_cur: "totp_counter 1735689660 = 57856322"
  by (simp add: totp_counter_def totp_period_def)

lemma counter_same_period: "totp_counter 1735689689 = 57856322"
  by (simp add: totp_counter_def totp_period_def)

lemma counter_late: "totp_counter 1735733760 = 57857792"
  by (simp add: totp_counter_def totp_period_def)

lemma rfc_key_neq_other_key: "rfc_key \<noteq> other_key"
  by (simp add: rfc_key_def other_key_def)

text \<open>
  C3, as stated, fails: the code the RFC 6238 test key (ASCII \<open>12345678901234567890\<close>)
  yields at 2025-01-01 00:01:00 UTC is \<open>475394\<close>, and so is the code it yields at
  12:16:00 UTC the same day, 1470 periods later. Generated at the first instant and
  submitted at the second, far outside the window, the code validates with offset 0.
\<close>

theorem C3_counterexample:
  "1 < \<bar>totp_counter 1735689660 - totp_counter 1735733760\<bar>
   \<and> totp_validate rfc_key (totp_generate rfc_key 1735689660) 1 1735733760 = Some 0"
  by (simp add: totp_validate_1 totp_generate_def counter_cur counter_late
      hotp_rfc_key_cur hotp_rfc_key_late)

text \<open>
  C3, amended: validating \<open>totp(secret, time)\<close> with window 1 succeeds when \<open>time\<close> lies in
  the current period or an adjacent one of the validation instant; when it lies outside,
  it fails unless the six-digit code equals the code of one of those three periods.
  \<open>validate\<close> checks exactly the current and the two adjacent periods: it returns the
  first offset among 0, -1, +1 whose code is the token, and the no-match sentinel exactly
  when none is.
\<close>

theorem C3_validate_window:
  "(\<bar>totp_counter time - totp_counter now\<bar> \<le> 1 \<longrightarrow>
      totp_validate key (totp_generate key time) 1 now \<noteq> None)
   \<and> (1 < \<bar>totp_counter time - totp_counter now\<bar> \<longrightarrow>
      (totp_validate key (totp_generate key time) 1 now = None \<longleftrightarrow>
         totp_generate key time \<notin> {hotp key (totp_counter now), hotp key (totp_counter now - 1),
                                    hotp key (totp_counter now + 1)}))
   \<and> (totp_validate key token 1 now = None \<longleftrightarrow>
         token \<notin> {hotp key (totp_counter now), hotp key (totp_counter now - 1),
                   hotp key (totp_counter now + 1)})
   \<and> (totp_validate key token 1 now = Some delta \<longrightarrow>
         delta \<in> {0, - 1, 1} \<and> hotp key (totp_counter now + delta) = token
         \<and> (delta \<noteq> 0 \<longrightarrow> hotp key (totp_counter now) \<noteq> token)
         \<and> (delta = 1 \<longrightarrow> hotp key (totp_counter now - 1) \<noteq> token))"
proof (intro conjI impI)
  assume near: "\<bar>totp_counter time - totp_counter now\<bar> \<le> 1"
  then consider "totp_counter time = totp_counter now"
    | "totp_counter time = totp_counter now - 1" | "totp_counter time = totp_counter now + 1"
    by linarith
  then show "totp_validate key (totp_generate key time) 1 now \<noteq> None"
    by cases (simp_all add: totp_validate_1 totp_generate_def)
next
  show "totp_validate key (totp_generate key time) 1 now = None \<longleftrightarrow>
          totp_generate key time \<notin> {hotp key (totp_counter now), hotp key (totp_counter now - 1),
                                     hotp key (totp_counter now + 1)}"
    by (simp add: totp_validate_None_iff)
next
  show "totp_validate key token 1 now = None \<longleftrightarrow>
          token \<notin> {hotp key (totp_counter now), hotp key (totp_counter now - 1),
                    hotp key (totp_counter now + 1)}"
    by (simp add: totp_validate_None_iff)
next
  assume "totp_validate key token 1 now = Some delta"
  then show "delta \<in> {0, - 1, 1}" "hotp key (totp_counter now + delta) = token"
    by (auto simp: totp_validate_1 split: if_splits)
next
  assume "totp_validate key token 1 now = Some delta" "delta \<noteq> 0"
  then show "hotp key (totp_counter now) \<noteq> token"
    by (auto simp: totp_validate_1 split: if_splits)
next
  assume "totp_validate key token 1 now = Some delta" "delta = 1"
  then show "hotp key (totp_counter now - 1) \<noteq> token"
    by (auto simp: totp_validate_1 split: if_splits)
qed

text \<open>
  The amended C3 at the RFC key: a code generated at 00:01:00 validates 29 seconds later,
  in the same period, with offset 0; generated then and submitted 1470 periods later it
  is not refused, because the late period's own code is the same; \<open>000000\<close> is none of the
  three codes of the window at 00:01:00 and is refused.
\<close>

theorem C3_validate_window_witness:
  "\<bar>totp_counter 1735689660 - totp_counter 1735689689\<bar> \<le> 1
   \<and> totp_validate rfc_key (totp_generate rfc_key 1735689660) 1 1735689689 \<noteq> None
   \<and> 1 < \<bar>totp_counter 1735689660 - totp_counter 1735733760\<bar>
   \<and> totp_validate rfc_key (totp_generate rfc_key 1735689660) 1 1735733760 \<noteq> None
   \<and> totp_generate rfc_key 1735689660 = hotp rfc_key (totp_counter 1735733760)
   \<and> totp_validate rfc_key ''000000'' 1 1735689660 = None
   \<and> totp_validate rfc_key ''475394'' 1 1735689660 = Some 0
   \<and> hotp rfc_key (totp_counter 1735689660 + 0) = ''475394''"
  using C3_validate_window [of 1735689660 1735689689 rfc_key "''475394''" 0]
    C3_validate_window [of 1735689660 1735733760 rfc_key "''000000''" 0]
    C3_validate_window [of 1735689660 1735689660 rfc_key "''000000''" 0]
  by (simp add: totp_generate_def counter_cur counter_late counter_same_period
      hotp_rfc_key_cur hotp_rfc_key_late hotp_rfc_key_prev hotp_rfc_key_next totp_validate_1)

text \<open>
  C7, as stated, fails: at 2025-01-01 00:01:00 UTC the key \<open>K2-00000000000726393\<close> yields
  \<open>475394\<close>, the code of the distinct RFC key for the same period, so the code generated
  from the one validates under the other.
\<close>

theorem C7_counterexample:
  "other_key \<noteq> rfc_key
   \<and> totp_validate rfc_key (totp_generate other_key 1735689660) 1 1735689660 = Some 0"
  using rfc_key_neq_other_key
  by (simp add: totp_validate_1 totp_generate_def counter_cur hotp_rfc_key_cur
      hotp_other_key_cur)

text \<open>
  C7, amended: for distinct secrets \<open>s1\<close> and \<open>s2\<close>, \<open>validate(s1, code)\<close> matches a code
  generated from \<open>s2\<close> exactly when \<open>s1\<close> itself yields the same six digits for the current
  or an adjacent period; when the three codes of \<open>s1\<close> differ from it, it never matches.
  With six digits such coincidences cannot be excluded: for every period there are
  distinct secrets with the same code.
\<close>

theorem C7_other_secret:
  "s1 \<noteq> s2 \<longrightarrow>
     (totp_validate s1 (totp_generate s2 time) 1 now \<noteq> None \<longleftrightarrow>
        totp_generate s2 time \<in> {hotp s1 (totp_counter now), hotp s1 (totp_counter now - 1),
                                  hotp s1 (totp_counter now + 1)})
     \<and> (\<exists>k1 k2. k1 \<noteq> k2 \<and> totp_generate k1 time = totp_generate k2 time)"
  using hotp_collides [of "totp_counter time"]
  by (simp add: totp_validate_None_iff totp_generate_def)

text \<open>
  The amended C7 at the two keys: they are distinct, the RFC key's codes for the window
  at 00:01:00 are \<open>475394\<close>, \<open>696213\<close> and \<open>908158\<close>, the other key's code is the first of
  them, and it validates.
\<close>

theorem C7_other_secret_witness:
  "rfc_key \<noteq> other_key
   \<and> totp_validate rfc_key (totp_generate other_key 1735689660) 1 1735689660 \<noteq> None
   \<and> totp_generate other_key 1735689660 = ''475394''
   \<and> hotp rfc_key (totp_counter 1735689660) = ''475394''
   \<and> hotp rfc_key (totp_counter 1735689660 - 1) = ''696213''
   \<and> hotp rfc_key (totp_counter 1735689660 + 1) = ''908158''"
  using C7_other_secret [of rfc_key other_key 1735689660 1735689660] rfc_key_neq_other_key
  by (simp add: totp_generate_def counter_cur hotp_rfc_key_cur hotp_rfc_key_prev
      hotp_rfc_key_next hotp_other_key_cur)

section \<open>Evaluating the worked configuration\<close>

lemma btoa_demo_id: "btoa [1, 2, 3, 4, 5] = ''AQIDBAU=''"
  by (simp add: b64_char_def b64_alphabet_def)

lemma btoa_demo_key: "btoa [48, 89, 48] = ''MFkw''"
  by (simp add: b64_char_def b64_alphabet_def)

lemma atob_demo_id: "atob ''AQIDBAU='' = Inr [1, 2, 3, 4, 5]"
  by (simp add: atob_def atob_stripped_def strip_b64_padding_def ascii_whitespace_def
      b64_value_def)

lemma fromBase32_demo_secret: "fromBase32 demo_secret = Inr rfc_key"
  by (simp add: fromBase32_def b32_value_def demo_secret_def rfc_key_def)

lemma validate_demo_code: "totp_validate rfc_key ''475394'' (Suc 0) 1735689660 = Some 0"
  by (simp add: totp_validate_1 counter_cur hotp_rfc_key_cur)

lemma validate_demo_zeros: "totp_validate rfc_key ''000000'' (Suc 0) 1735689660 = None"
  by (simp add: totp_validate_1 counter_cur hotp_rfc_key_cur hotp_rfc_key_prev
      hotp_rfc_key_next)

lemma falsy_Some: "falsy (Some uid) \<longleftrightarrow> uid = []"
  by (simp add: falsy_def)


lemma alice_not_empty: "alice \<noteq> []"
  by (simp add: alice_def)

lemma bob_not_empty: "bob \<noteq> []"
  by (simp add: bob_def)

lemmas demo_defs =
  demo_platform_def demo_db_def empty_db_def demo_2fa_row_def demo_passkey_row_def
  demo_attestation_def demo_assertion_def demo_user_def alice_def bob_def

section \<open>The passkey assertion handler\<close>

text \<open>
  C10: inside an iframe (\<open>window.self !== window.top\<close>) \<open>handleUsePasskey\<close> refuses before
  any store read or ceremony: its only effect is the error toast, and the page state, the
  route and the tables are what they were, for every account.
\<close>

theorem C10_iframe_refusal:
  assumes "in_iframe env"
  shows "handleUsePasskey env uid page db =
           (page, db,
            [Toast_error
               ''Passkeys cannot be used in preview mode. Please use 2FA code or deploy your app.''])
         \<and> (\<forall>call. Store call \<notin> set (snd (snd (handleUsePasskey env uid page db))))
         \<and> (\<forall>options. Ceremony_get options \<notin> set (snd (snd (handleUsePasskey env uid page db))))
         \<and> route_after route (snd (snd (handleUsePasskey env uid page db))) = route"
  using assms by (simp add: handleUsePasskey_def)

theorem C10_iframe_refusal_witness:
  "in_iframe (demo_platform\<lparr>in_iframe := True\<rparr>)
   \<and> handleUsePasskey (demo_platform\<lparr>in_iframe := True\<rparr>) alice Choose2FA_init demo_db =
       (Choose2FA_init, demo_db,
        [Toast_error
           ''Passkeys cannot be used in preview mode. Please use 2FA code or deploy your app.''])
   \<and> flow_of_route
         (route_after ''/auth/choose-2fa''
            (snd (snd (handleUsePasskey (demo_platform\<lparr>in_iframe := True\<rparr>) alice
                         Choose2FA_init demo_db)))) = AwaitingMethodChoice"
  using C10_iframe_refusal [of "demo_platform\<lparr>in_iframe := True\<rparr>" alice Choose2FA_init
      demo_db "''/auth/choose-2fa''"]
  by (simp add: demo_platform_def flow_of_route_def)

text \<open>
  C8: whatever \<open>handleUsePasskey\<close> does, a successful assertion included, the tables after
  it are the tables before it: no row of \<open>user_passkeys\<close> changes, and in particular no
  \<open>counter\<close> and no \<open>last_used_at\<close>.
\<close>

theorem C8_assertion_writes_nothing:
  assumes "handleUsePasskey env uid page db = (page', db', effects)"
  shows "db' = db
         \<and> user_passkeys db' = user_passkeys db
         \<and> map pk_counter (user_passkeys db') = map pk_counter (user_passkeys db)
         \<and> map pk_last_used_at (user_passkeys db') = map pk_last_used_at (user_passkeys db)"
  using assms
  by (auto simp: handleUsePasskey_def split: if_splits prod.splits option.splits)

lemma usePasskey_demo:
  "handleUsePasskey demo_platform alice Choose2FA_init demo_db =
     (Choose2FA_init, demo_db,
      [Store (Select_credential_ids alice),
       Ceremony_get (assertion_options demo_platform [[1, 2, 3, 4, 5]]),
       Toast_success ''Passkey verified successfully!'', Navigate ''/dashboard'' None])"
  by (simp add: handleUsePasskey_def usePasskey_try_def usePasskey_ceremony_def
      select_credential_ids_def demo_defs atob_demo_id Choose2FA_init_def)

theorem C8_assertion_writes_nothing_witness:
  "handleUsePasskey demo_platform alice Choose2FA_init demo_db =
     (Choose2FA_init, demo_db,
      [Store (Select_credential_ids alice),
       Ceremony_get (assertion_options demo_platform [[1, 2, 3, 4, 5]]),
       Toast_success ''Passkey verified successfully!'', Navigate ''/dashboard'' None])
   \<and> map pk_counter (user_passkeys demo_db) = [0]
   \<and> map pk_last_used_at (user_passkeys demo_db) = [None]"
  using C8_assertion_writes_nothing [OF usePasskey_demo]
  by (simp add: usePasskey_demo) (simp add: demo_defs)

section \<open>The TOTP verification handler\<close>

lemma select_2fa_secret_enabled:
  "select_2fa_secret env (db\<lparr>user_2fa := map (\<lambda>r. r\<lparr>tf_enabled := f r\<rparr>) (user_2fa db)\<rparr>) uid
     = select_2fa_secret env db uid"
  by (simp add: select_2fa_secret_def filter_map comp_def split: option.splits)

text \<open>
  C9: \<open>handleVerify\<close> selects only the \<open>secret\<close> column. Whatever the \<open>enabled\<close> flags of
  the stored 2FA records are set to, row by row, the new page state and the effects
  (toasts, navigation) of a verification are the same, for every account id and every
  submitted code: a record toggled off still has codes validated against its secret.
\<close>

theorem C9_enabled_never_read:
  "fst (Verify2FA_handleVerify env userId page
          (db\<lparr>user_2fa := map (\<lambda>r. r\<lparr>tf_enabled := f r\<rparr>) (user_2fa db)\<rparr>))
     = fst (Verify2FA_handleVerify env userId page db)
   \<and> snd (snd (Verify2FA_handleVerify env userId page
          (db\<lparr>user_2fa := map (\<lambda>r. r\<lparr>tf_enabled := f r\<rparr>) (user_2fa db)\<rparr>)))
     = snd (snd (Verify2FA_handleVerify env userId page db))"
  by (simp add: Verify2FA_handleVerify_def verify_try_def select_2fa_secret_enabled
      split: option.splits sum.splits prod.splits)

lemma verify_demo_code:
  "Verify2FA_handleVerify demo_platform (Some alice) \<lparr>v_token = ''475394'', v_loading = False\<rparr>
     demo_db =
     (\<lparr>v_token = ''475394'', v_loading = False\<rparr>, demo_db,
      [Store (Select_2fa_secret alice), Toast_success ''Verification successful!'',
       Navigate ''/dashboard'' None])"
  by (simp add: Verify2FA_handleVerify_def verify_try_def select_2fa_secret_def single_def
      validate_token_def demo_defs fromBase32_demo_secret validate_demo_code falsy_def)

theorem C9_enabled_never_read_witness:
  "tf_enabled demo_2fa_row
   \<and> map tf_enabled
        (user_2fa (demo_db\<lparr>user_2fa := map (\<lambda>r. r\<lparr>tf_enabled := False\<rparr>) (user_2fa demo_db)\<rparr>))
      = [False]
   \<and> snd (snd (Verify2FA_handleVerify demo_platform (Some alice)
                  \<lparr>v_token = ''475394'', v_loading = False\<rparr>
                  (demo_db\<lparr>user_2fa := map (\<lambda>r. r\<lparr>tf_enabled := False\<rparr>) (user_2fa demo_db)\<rparr>)))
      = [Store (Select_2fa_secret alice), Toast_success ''Verification successful!'',
         Navigate ''/dashboard'' None]"
  using C9_enabled_never_read [of demo_platform "Some alice"
      "\<lparr>v_token = ''475394'', v_loading = False\<rparr>" "\<lambda>r. False" demo_db]
  by (simp add: verify_demo_code) (simp add: demo_defs)

lemma demo_time: "unix_time demo_platform = 1735689660"
  by (simp add: demo_platform_def)

lemma single_map_Inl: "single (map f rows) = Inl e \<longleftrightarrow> (\<forall>r. rows \<noteq> [r]) \<and> e = single_row_error"
proof (cases rows)
  case Nil
  then show ?thesis
    by (auto simp: single_def)
next
  case (Cons r rest)
  then show ?thesis
    by (cases rest) (auto simp: single_def)
qed

lemma verify_store_error:
  assumes "uid \<noteq> []" and "select_2fa_secret env db uid = Inl e"
  shows "Verify2FA_handleVerify env (Some uid) page db =
           (page\<lparr>v_loading := False\<rparr>, db,
            [Store (Select_2fa_secret uid), Toast_error (message_or e ''Verification failed'')])"
  using assms by (simp add: Verify2FA_handleVerify_def verify_try_def falsy_Some)

lemma verify_decode_error:
  assumes "uid \<noteq> []" and "select_2fa_secret env db uid = Inr secret"
    and "fromBase32 secret = Inl e"
  shows "Verify2FA_handleVerify env (Some uid) page db =
           (page\<lparr>v_loading := False\<rparr>, db,
            [Store (Select_2fa_secret uid), Toast_error (message_or e ''Verification failed'')])"
  using assms
  by (simp add: Verify2FA_handleVerify_def verify_try_def validate_token_def falsy_Some)

lemma verify_no_match:
  assumes "uid \<noteq> []" and "select_2fa_secret env db uid = Inr secret"
    and "fromBase32 secret = Inr key"
    and "totp_validate key (v_token page) 1 (unix_time env) = None"
  shows "Verify2FA_handleVerify env (Some uid) page db =
           (page\<lparr>v_loading := False\<rparr>, db,
            [Store (Select_2fa_secret uid), Toast_error ''Invalid code. Please try again.''])"
  using assms
  by (simp add: Verify2FA_handleVerify_def verify_try_def validate_token_def falsy_Some)

lemma verify_match:
  assumes "uid \<noteq> []" and "select_2fa_secret env db uid = Inr secret"
    and "fromBase32 secret = Inr key"
    and "totp_validate key (v_token page) 1 (unix_time env) = Some delta"
  shows "Verify2FA_handleVerify env (Some uid) page db =
           (page\<lparr>v_loading := False\<rparr>, db,
            [Store (Select_2fa_secret uid), Toast_success ''Verification successful!'',
             Navigate ''/dashboard'' None])"
  using assms
  by (simp add: Verify2FA_handleVerify_def verify_try_def validate_token_def falsy_Some)

text \<open>
  C2, as stated, fails: \<open>alice\<close>'s stored secret is the RFC 6238 test key and \<open>475394\<close> is
  its code for the current period, but when the store answers the handler's query with an
  error the handler shows the store's message and the flow stays in \<open>AwaitingTOTPCode\<close>.
\<close>

theorem C2_counterexample:
  "filter (\<lambda>r. tf_user_id r = alice) (user_2fa demo_db) = [demo_2fa_row]
   \<and> fromBase32 (tf_secret demo_2fa_row) = Inr rfc_key
   \<and> totp_validate rfc_key ''475394'' 1
        (unix_time (demo_platform\<lparr>store_fault := \<lambda>call. Some (JsError [] ''Failed to fetch'')\<rparr>))
       = Some 0
   \<and> Verify2FA_handleVerify
        (demo_platform\<lparr>store_fault := \<lambda>call. Some (JsError [] ''Failed to fetch'')\<rparr>)
        (Some alice) \<lparr>v_token = ''475394'', v_loading = True\<rparr> demo_db =
        (\<lparr>v_token = ''475394'', v_loading = False\<rparr>, demo_db,
         [Store (Select_2fa_secret alice), Toast_error ''Failed to fetch''])
   \<and> flow_of_route (route_after ''/auth/verify-2fa''
        [Store (Select_2fa_secret alice), Toast_error ''Failed to fetch'']) = AwaitingTOTPCode"
proof -
  have "filter (\<lambda>r. tf_user_id r = alice) (user_2fa demo_db) = [demo_2fa_row]"
    by (simp add: demo_db_def demo_2fa_row_def)
  moreover have "fromBase32 (tf_secret demo_2fa_row) = Inr rfc_key"
    by (simp add: demo_2fa_row_def fromBase32_demo_secret)
  moreover have "totp_validate rfc_key ''475394'' 1
      (unix_time (demo_platform\<lparr>store_fault := \<lambda>call. Some (JsError [] ''Failed to fetch'')\<rparr>))
      = Some 0"
    by (simp add: demo_time validate_demo_code)
  moreover have "Verify2FA_handleVerify
      (demo_platform\<lparr>store_fault := \<lambda>call. Some (JsError [] ''Failed to fetch'')\<rparr>)
      (Some alice) \<lparr>v_token = ''475394'', v_loading = True\<rparr> demo_db =
      (\<lparr>v_token = ''475394'', v_loading = False\<rparr>, demo_db,
       [Store (Select_2fa_secret alice), Toast_error ''Failed to fetch''])"
    by (simp add: Verify2FA_handleVerify_def verify_try_def select_2fa_secret_def falsy_Some
        alice_not_empty message_or_def)
  moreover have "flow_of_route (route_after ''/auth/verify-2fa''
      [Store (Select_2fa_secret alice), Toast_error ''Failed to fetch'']) = AwaitingTOTPCode"
    by (simp add: flow_of_route_def)
  ultimately show ?thesis
    by simp
qed

text \<open>
  C2, amended: in the TOTP step, for an account id, the handler first asks the store for
  the account's secret, and the flow reaches \<open>Authenticated\<close> if and only if the store
  answers, holds exactly one \<open>user_2fa\<close> row of that account, the row's secret is base32 and
  the submitted code matches it for the current or an adjacent period; otherwise the flow
  stays in \<open>AwaitingTOTPCode\<close> with an error shown. When the store answers with the
  account's one row and a base32 secret, every submitted code is validated against that
  row's secret: a match navigates to the dashboard, no match emits \<open>Invalid code\<close>, and so
  does \<open>000000\<close> whenever it is none of the codes of the window. When the store answers
  with an error, its message is shown, whatever the code.
\<close>

theorem C2_verify_code:
  assumes "uid \<noteq> []"
  shows "(\<exists>rest. snd (snd (Verify2FA_handleVerify env (Some uid) page db))
                   = Store (Select_2fa_secret uid) # rest)
         \<and> fst (snd (Verify2FA_handleVerify env (Some uid) page db)) = db
         \<and> (flow_of_route (route_after ''/auth/verify-2fa''
                (snd (snd (Verify2FA_handleVerify env (Some uid) page db)))) = Authenticated
              \<longleftrightarrow> store_fault env (Select_2fa_secret uid) = None
                  \<and> (\<exists>row key. filter (\<lambda>r. tf_user_id r = uid) (user_2fa db) = [row]
                        \<and> fromBase32 (tf_secret row) = Inr key
                        \<and> totp_validate key (v_token page) 1 (unix_time env) \<noteq> None))
         \<and> (flow_of_route (route_after ''/auth/verify-2fa''
                (snd (snd (Verify2FA_handleVerify env (Some uid) page db)))) \<noteq> Authenticated
              \<longrightarrow> flow_of_route (route_after ''/auth/verify-2fa''
                     (snd (snd (Verify2FA_handleVerify env (Some uid) page db)))) = AwaitingTOTPCode
                  \<and> (\<exists>message. Toast_error message
                        \<in> set (snd (snd (Verify2FA_handleVerify env (Some uid) page db)))))
         \<and> (store_fault env (Select_2fa_secret uid) = None
              \<and> filter (\<lambda>r. tf_user_id r = uid) (user_2fa db) = [row]
              \<and> fromBase32 (tf_secret row) = Inr key \<longrightarrow>
              (totp_validate key (v_token page) 1 (unix_time env) \<noteq> None \<longrightarrow>
                 Verify2FA_handleVerify env (Some uid) page db =
                   (page\<lparr>v_loading := False\<rparr>, db,
                    [Store (Select_2fa_secret uid), Toast_success ''Verification successful!'',
                     Navigate ''/dashboard'' None]))
              \<and> (totp_validate key (v_token page) 1 (unix_time env) = None \<longrightarrow>
                 Verify2FA_handleVerify env (Some uid) page db =
                   (page\<lparr>v_loading := False\<rparr>, db,
                    [Store (Select_2fa_secret uid),
                     Toast_error ''Invalid code. Please try again.'']))
              \<and> (v_token page = ''000000''
                   \<and> ''000000'' \<notin> {hotp key (totp_counter (unix_time env)),
                        hotp key (totp_counter (unix_time env) - 1),
                        hotp key (totp_counter (unix_time env) + 1)} \<longrightarrow>
                 flow_of_route (route_after ''/auth/verify-2fa''
                   (snd (snd (Verify2FA_handleVerify env (Some uid) page db)))) = AwaitingTOTPCode
                 \<and> Toast_error ''Invalid code. Please try again.''
                     \<in> set (snd (snd (Verify2FA_handleVerify env (Some uid) page db)))))
         \<and> (store_fault env (Select_2fa_secret uid) = Some e \<longrightarrow>
              Verify2FA_handleVerify env (Some uid) page db =
                (page\<lparr>v_loading := False\<rparr>, db,
                 [Store (Select_2fa_secret uid),
                  Toast_error (message_or e ''Verification failed'')]))"
proof -
  have authenticated: "flow_of_route ''/dashboard'' = Authenticated"
    by (simp add: flow_of_route_def)
  have stays: "flow_of_route ''/auth/verify-2fa'' = AwaitingTOTPCode"
    by (simp add: flow_of_route_def)
  show ?thesis
  proof (cases "store_fault env (Select_2fa_secret uid)")
    case (Some fault)
    then have "select_2fa_secret env db uid = Inl fault"
      by (simp add: select_2fa_secret_def)
    then have run: "Verify2FA_handleVerify env (Some uid) page db =
        (page\<lparr>v_loading := False\<rparr>, db,
         [Store (Select_2fa_secret uid), Toast_error (message_or fault ''Verification failed'')])"
      using assms by (rule verify_store_error [rotated])
    from Some show ?thesis
      unfolding run by (simp add: stays)
  next
    case None
    then have select: "select_2fa_secret env db uid =
        single (map tf_secret (filter (\<lambda>r. tf_user_id r = uid) (user_2fa db)))"
      by (simp add: select_2fa_secret_def)
    show ?thesis
    proof (cases "\<exists>r. filter (\<lambda>r. tf_user_id r = uid) (user_2fa db) = [r]")
      case False
      then have "select_2fa_secret env db uid = Inl single_row_error"
        unfolding select by (simp add: single_map_Inl)
      then have run: "Verify2FA_handleVerify env (Some uid) page db =
          (page\<lparr>v_loading := False\<rparr>, db,
           [Store (Select_2fa_secret uid),
            Toast_error (message_or single_row_error ''Verification failed'')])"
        using assms by (rule verify_store_error [rotated])
      from None False show ?thesis
        unfolding run by (simp add: stays)
    next
      case True
      then obtain r where rows: "filter (\<lambda>r. tf_user_id r = uid) (user_2fa db) = [r]"
        by blast
      have secret: "select_2fa_secret env db uid = Inr (tf_secret r)"
        unfolding select rows by (simp add: single_def)
      show ?thesis
      proof (cases "fromBase32 (tf_secret r)")
        case (Inl error)
        then have run: "Verify2FA_handleVerify env (Some uid) page db =
            (page\<lparr>v_loading := False\<rparr>, db,
             [Store (Select_2fa_secret uid),
              Toast_error (message_or error ''Verification failed'')])"
          using assms secret by (simp add: verify_decode_error)
        from None rows Inl show ?thesis
          unfolding run by (auto simp: stays)
      next
        case (Inr k)
        show ?thesis
        proof (cases "totp_validate k (v_token page) 1 (unix_time env)")
          case no_match: None
          then have run: "Verify2FA_handleVerify env (Some uid) page db =
              (page\<lparr>v_loading := False\<rparr>, db,
               [Store (Select_2fa_secret uid), Toast_error ''Invalid code. Please try again.''])"
            using assms secret Inr by (simp add: verify_no_match)
          from None rows Inr no_match show ?thesis
            unfolding run by (auto simp: stays)
        next
          case (Some delta)
          then have run: "Verify2FA_handleVerify env (Some uid) page db =
              (page\<lparr>v_loading := False\<rparr>, db,
               [Store (Select_2fa_secret uid), Toast_success ''Verification successful!'',
                Navigate ''/dashboard'' None])"
            using assms secret Inr by (simp add: verify_match)
          have "v_token page \<in> {hotp k (totp_counter (unix_time env)),
              hotp k (totp_counter (unix_time env) - 1), hotp k (totp_counter (unix_time env) + 1)}"
            using Some totp_validate_None_iff [of k "v_token page" "unix_time env"] by auto
          with None rows Inr Some show ?thesis
            unfolding run by (auto simp: authenticated)
        qed
      qed
    qed
  qed
qed

text \<open>
  C2 on the table of two accounts, where \<open>carol\<close>'s row comes first: \<open>alice\<close>'s codes are
  validated against \<open>alice\<close>'s secret. \<open>475394\<close> authenticates her, \<open>000000\<close> does not; and
  behind a store error \<open>475394\<close> does not either.
\<close>

theorem C2_verify_code_witness:
  "alice \<noteq> []
   \<and> user_2fa two_account_db = [carol_2fa_row, demo_2fa_row]
   \<and> tf_user_id carol_2fa_row \<noteq> alice
   \<and> tf_secret carol_2fa_row \<noteq> tf_secret demo_2fa_row
   \<and> store_fault demo_platform (Select_2fa_secret alice) = None
   \<and> filter (\<lambda>r. tf_user_id r = alice) (user_2fa two_account_db) = [demo_2fa_row]
   \<and> fromBase32 (tf_secret demo_2fa_row) = Inr rfc_key
   \<and> totp_validate rfc_key ''475394'' 1 (unix_time demo_platform) \<noteq> None
   \<and> Verify2FA_handleVerify demo_platform (Some alice)
        \<lparr>v_token = ''475394'', v_loading = True\<rparr> two_account_db =
        (\<lparr>v_token = ''475394'', v_loading = False\<rparr>, two_account_db,
         [Store (Select_2fa_secret alice), Toast_success ''Verification successful!'',
          Navigate ''/dashboard'' None])
   \<and> flow_of_route (route_after ''/auth/verify-2fa''
        (snd (snd (Verify2FA_handleVerify demo_platform (Some alice)
                     \<lparr>v_token = ''475394'', v_loading = True\<rparr> two_account_db)))) = Authenticated
   \<and> totp_validate rfc_key ''000000'' 1 (unix_time demo_platform) = None
   \<and> Verify2FA_handleVerify demo_platform (Some alice)
        \<lparr>v_token = ''000000'', v_loading = True\<rparr> two_account_db =
        (\<lparr>v_token = ''000000'', v_loading = False\<rparr>, two_account_db,
         [Store (Select_2fa_secret alice), Toast_error ''Invalid code. Please try again.''])
   \<and> flow_of_route (route_after ''/auth/verify-2fa''
        (snd (snd (Verify2FA_handleVerify demo_platform (Some alice)
                     \<lparr>v_token = ''000000'', v_loading = True\<rparr> two_account_db)))) = AwaitingTOTPCode
   \<and> store_fault (demo_platform\<lparr>store_fault := \<lambda>call. Some (JsError [] ''Service unavailable'')\<rparr>)
        (Select_2fa_secret alice) = Some (JsError [] ''Service unavailable'')
   \<and> Verify2FA_handleVerify
        (demo_platform\<lparr>store_fault := \<lambda>call. Some (JsError [] ''Service unavailable'')\<rparr>)
        (Some alice) \<lparr>v_token = ''475394'', v_loading = True\<rparr> two_account_db =
        (\<lparr>v_token = ''475394'', v_loading = False\<rparr>, two_account_db,
         [Store (Select_2fa_secret alice), Toast_error ''Service unavailable''])"
proof -
  have rows: "filter (\<lambda>r. tf_user_id r = alice) (user_2fa two_account_db) = [demo_2fa_row]"
    by (simp add: two_account_db_def carol_2fa_row_def demo_2fa_row_def carol_def alice_def)
  have others: "user_2fa two_account_db = [carol_2fa_row, demo_2fa_row]"
    "tf_user_id carol_2fa_row \<noteq> alice" "tf_secret carol_2fa_row \<noteq> tf_secret demo_2fa_row"
    by (simp_all add: two_account_db_def carol_2fa_row_def demo_2fa_row_def carol_def alice_def
        carol_secret_def demo_secret_def)
  have key: "fromBase32 (tf_secret demo_2fa_row) = Inr rfc_key"
    by (simp add: demo_2fa_row_def fromBase32_demo_secret)
  have served: "store_fault demo_platform (Select_2fa_secret alice) = None"
    by (simp add: demo_platform_def)
  have match: "totp_validate rfc_key ''475394'' 1 (unix_time demo_platform) \<noteq> None"
    by (simp add: demo_time validate_demo_code)
  have no_match: "totp_validate rfc_key ''000000'' 1 (unix_time demo_platform) = None"
    by (simp add: demo_time validate_demo_zeros)
  show ?thesis
    using C2_verify_code [OF alice_not_empty, where env = demo_platform and db = two_account_db
        and page = "\<lparr>v_token = ''475394'', v_loading = True\<rparr>" and row = demo_2fa_row
        and key = rfc_key]
      C2_verify_code [OF alice_not_empty, where env = demo_platform and db = two_account_db
        and page = "\<lparr>v_token = ''000000'', v_loading = True\<rparr>" and row = demo_2fa_row
        and key = rfc_key]
      C2_verify_code [OF alice_not_empty,
        where env = "demo_platform\<lparr>store_fault := \<lambda>call. Some (JsError [] ''Service unavailable'')\<rparr>"
        and db = two_account_db and page = "\<lparr>v_token = ''475394'', v_loading = True\<rparr>"
        and e = "JsError [] ''Service unavailable''"]
      rows others key served match no_match
    by (simp add: alice_not_empty message_or_def flow_of_route_def)
qed

section \<open>The method-choice step\<close>

text \<open>
  C5, as stated, fails: \<open>alice\<close> has a stored passkey, but when the store answers the
  step's query with an error, \<open>checkPasskeys\<close> leaves \<open>hasPasskeys\<close> false and only the code
  option is offered.
\<close>

theorem C5_counterexample:
  "filter (\<lambda>r. pk_user_id r = alice) (user_passkeys demo_db) = [demo_passkey_row]
   \<and> Choose2FA_render (Some alice)
        (Choose2FA_mounted
           (demo_platform\<lparr>store_fault := \<lambda>call. Some (JsError [] ''Failed to fetch'')\<rparr>)
           (Some alice) demo_db) = Buttons [Use_code]"
  by (simp add: Choose2FA_render_def Choose2FA_mounted_def checkPasskeys_def
      select_passkey_id_def Choose2FA_init_def demo_defs falsy_def)

text \<open>
  C5, amended: for an account id, the step queries the store for the account's passkeys,
  and the passkey option is offered if and only if the store answers that query and the account has at
  least one stored PasskeyCredential; the code option is always offered, and with zero
  stored passkeys it is the only one, so that selecting passkey is not possible.
\<close>

theorem C5_passkey_option:
  assumes "uid \<noteq> []"
  shows "(Use_passkey \<in> set (offered (Choose2FA_render (Some uid) (Choose2FA_mounted env (Some uid) db)))
      \<longleftrightarrow> store_fault env (Select_passkey_id uid) = None
          \<and> (\<exists>r \<in> set (user_passkeys db). pk_user_id r = uid))
   \<and> Use_code \<in> set (offered (Choose2FA_render (Some uid) (Choose2FA_mounted env (Some uid) db)))
   \<and> snd (snd (checkPasskeys env (Some uid) Choose2FA_init db)) = [Store (Select_passkey_id uid)]
   \<and> ((\<forall>r \<in> set (user_passkeys db). pk_user_id r \<noteq> uid) \<longrightarrow>
        Choose2FA_render (Some uid) (Choose2FA_mounted env (Some uid) db) = Buttons [Use_code])"
proof (cases "store_fault env (Select_passkey_id uid)")
  case None
  show ?thesis
  proof (cases "filter (\<lambda>r. pk_user_id r = uid) (user_passkeys db)")
    case Nil
    then have "\<forall>r \<in> set (user_passkeys db). pk_user_id r \<noteq> uid"
      by (simp add: filter_empty_conv)
    with None Nil assms show ?thesis
      by (simp add: Choose2FA_render_def Choose2FA_mounted_def checkPasskeys_def offered_def
          select_passkey_id_def Choose2FA_init_def falsy_Some)
  next
    case (Cons r rows)
    then have "r \<in> set (filter (\<lambda>r. pk_user_id r = uid) (user_passkeys db))"
      by simp
    then have "\<exists>r \<in> set (user_passkeys db). pk_user_id r = uid"
      by auto
    with None Cons assms show ?thesis
      by (auto simp: Choose2FA_render_def Choose2FA_mounted_def checkPasskeys_def offered_def
          select_passkey_id_def Choose2FA_init_def falsy_Some)
  qed
next
  case (Some e)
  with assms show ?thesis
    by (simp add: Choose2FA_render_def Choose2FA_mounted_def checkPasskeys_def offered_def
        select_passkey_id_def Choose2FA_init_def falsy_Some)
qed

theorem C5_passkey_option_witness:
  "alice \<noteq> [] \<and> bob \<noteq> []
   \<and> store_fault demo_platform (Select_passkey_id alice) = None
   \<and> demo_passkey_row \<in> set (user_passkeys demo_db) \<and> pk_user_id demo_passkey_row = alice
   \<and> Use_passkey \<in> set (offered (Choose2FA_render (Some alice)
                                   (Choose2FA_mounted demo_platform (Some alice) demo_db)))
   \<and> filter (\<lambda>r. pk_user_id r = bob) (user_passkeys demo_db) = []
   \<and> Choose2FA_render (Some bob) (Choose2FA_mounted demo_platform (Some bob) demo_db)
       = Buttons [Use_code]"
  using C5_passkey_option [OF alice_not_empty, of demo_platform demo_db]
    C5_passkey_option [OF bob_not_empty, of demo_platform demo_db]
  by (simp add: demo_defs)

section \<open>The 2FA setup handler\<close>

lemma insert_2fa_accepted:
  "insert_2fa env db userId secret enabled = (None, db') \<longleftrightarrow>
     store_fault env (Insert_2fa userId secret enabled) = None
     \<and> (\<exists>uid. userId = Some uid \<and> uid \<notin> set (map tf_user_id (user_2fa db))
           \<and> gen_random_uuid env \<notin> set (map tf_id (user_2fa db))
           \<and> db' = db\<lparr>user_2fa := user_2fa db @ [new_2fa_row env uid secret enabled]\<rparr>)"
  by (auto simp: insert_2fa_def split: option.splits if_splits)

lemma insert_2fa_rejected:
  "insert_2fa env db userId secret enabled = (Some e, db') \<Longrightarrow> db' = db"
  by (auto simp: insert_2fa_def split: option.splits if_splits)

lemma appended_row_differs: "db\<lparr>user_2fa := user_2fa db @ [row]\<rparr> \<noteq> db"
proof
  assume "db\<lparr>user_2fa := user_2fa db @ [row]\<rparr> = db"
  then have "user_2fa (db\<lparr>user_2fa := user_2fa db @ [row]\<rparr>) = user_2fa db"
    by simp
  then show False
    by simp
qed

lemma setup_mismatch:
  assumes "fromBase32 (s_secret page) = Inr key"
    and "totp_validate key (s_token page) 1 (unix_time env) = None"
  shows "Setup2FA_handleVerify env userId page db =
           (page\<lparr>s_loading := False\<rparr>, db, [Toast_error ''Invalid code. Please try again.''])"
  using assms by (simp add: Setup2FA_handleVerify_def setup_try_def validate_token_def)

lemma setup_match_accepted:
  assumes "fromBase32 (s_secret page) = Inr key"
    and "totp_validate key (s_token page) 1 (unix_time env) = Some delta"
    and "insert_2fa env db userId (s_secret page) True = (None, db')"
  shows "Setup2FA_handleVerify env userId page db =
           (page\<lparr>s_loading := False\<rparr>, db',
            [Store (Insert_2fa userId (s_secret page) True), Toast_success ''2FA setup complete!'',
             Navigate ''/dashboard'' None])"
  using assms by (simp add: Setup2FA_handleVerify_def setup_try_def validate_token_def)

lemma setup_match_rejected:
  assumes "fromBase32 (s_secret page) = Inr key"
    and "totp_validate key (s_token page) 1 (unix_time env) = Some delta"
    and "insert_2fa env db userId (s_secret page) True = (Some e, db')"
  shows "Setup2FA_handleVerify env userId page db =
           (page\<lparr>s_loading := False\<rparr>, db,
            [Store (Insert_2fa userId (s_secret page) True),
             Toast_error (message_or e ''Failed to setup 2FA'')])"
  using assms insert_2fa_rejected [OF assms(3)]
  by (simp add: Setup2FA_handleVerify_def setup_try_def validate_token_def)

text \<open>
  C4, as stated, fails: \<open>alice\<close> already has a \<open>user_2fa\<close> row. On the setup page the
  code \<open>475394\<close> validates against the generated secret, the insert is sent, the table's
  \<open>UNIQUE\<close> constraint on \<open>user_id\<close> rejects it: nothing is persisted and the flow stays,
  with the store's error as a toast.
\<close>

theorem C4_counterexample:
  "validate_token demo_platform (s_secret demo_setup) (s_token demo_setup) = Inr (Some 0)
   \<and> Setup2FA_handleVerify demo_platform (Some alice) demo_setup demo_db =
       (demo_setup\<lparr>s_loading := False\<rparr>, demo_db,
        [Store (Insert_2fa (Some alice) demo_secret True),
         Toast_error ''duplicate key value violates unique constraint''])"
  by (simp add: Setup2FA_handleVerify_def setup_try_def validate_token_def insert_2fa_def
      demo_setup_def fromBase32_demo_secret demo_time validate_demo_code
      demo_platform_def demo_db_def demo_2fa_row_def unique_violation_def message_or_def)

text \<open>
  C4, amended: in the setup flow the generated secret is persisted (a new row with
  \<open>enabled\<close> set) if and only if the submitted code validates against it and the store
  accepts the insert, which it does when the service serves the request, the account id
  is present and has no \<open>user_2fa\<close> row yet, and the new row's id is unused. On a code
  mismatch no store request is made, the tables are unchanged and the flow stays with
  \<open>Invalid code\<close>; on a match with an accepted insert the row is persisted and the flow
  goes to the dashboard; on a match with a rejected insert the tables are unchanged and
  the flow stays with the store's error.
\<close>

theorem C4_setup_persists:
  assumes "fromBase32 (s_secret page) = Inr key"
  shows "((\<exists>uid. userId = Some uid
             \<and> fst (snd (Setup2FA_handleVerify env userId page db)) =
                 db\<lparr>user_2fa := user_2fa db @ [new_2fa_row env uid (s_secret page) True]\<rparr>)
          \<longleftrightarrow> totp_validate key (s_token page) 1 (unix_time env) \<noteq> None
              \<and> store_fault env (Insert_2fa userId (s_secret page) True) = None
              \<and> (\<exists>uid. userId = Some uid \<and> uid \<notin> set (map tf_user_id (user_2fa db)))
              \<and> gen_random_uuid env \<notin> set (map tf_id (user_2fa db)))
         \<and> (totp_validate key (s_token page) 1 (unix_time env) = None \<longrightarrow>
              Setup2FA_handleVerify env userId page db =
                (page\<lparr>s_loading := False\<rparr>, db, [Toast_error ''Invalid code. Please try again.''])
              \<and> flow_of_route (route_after ''/auth/setup-2fa''
                   (snd (snd (Setup2FA_handleVerify env userId page db)))) = AwaitingConfirmationCode)
         \<and> (totp_validate key (s_token page) 1 (unix_time env) \<noteq> None
              \<and> insert_2fa env db userId (s_secret page) True = (None, db') \<longrightarrow>
              Setup2FA_handleVerify env userId page db =
                (page\<lparr>s_loading := False\<rparr>, db',
                 [Store (Insert_2fa userId (s_secret page) True),
                  Toast_success ''2FA setup complete!'', Navigate ''/dashboard'' None])
              \<and> (\<exists>uid. userId = Some uid
                    \<and> user_2fa db' = user_2fa db @ [new_2fa_row env uid (s_secret page) True]
                    \<and> tf_enabled (new_2fa_row env uid (s_secret page) True)
                    \<and> tf_secret (new_2fa_row env uid (s_secret page) True) = s_secret page)
              \<and> flow_of_route (route_after ''/auth/setup-2fa''
                   (snd (snd (Setup2FA_handleVerify env userId page db)))) = Authenticated)
         \<and> (totp_validate key (s_token page) 1 (unix_time env) \<noteq> None
              \<and> insert_2fa env db userId (s_secret page) True = (Some e, db') \<longrightarrow>
              Setup2FA_handleVerify env userId page db =
                (page\<lparr>s_loading := False\<rparr>, db,
                 [Store (Insert_2fa userId (s_secret page) True),
                  Toast_error (message_or e ''Failed to setup 2FA'')])
              \<and> flow_of_route (route_after ''/auth/setup-2fa''
                   (snd (snd (Setup2FA_handleVerify env userId page db)))) = AwaitingConfirmationCode)"
proof -
  have authenticated: "flow_of_route ''/dashboard'' = Authenticated"
    by (simp add: flow_of_route_def)
  have stays: "flow_of_route ''/auth/setup-2fa'' = AwaitingConfirmationCode"
    by (simp add: flow_of_route_def)
  show ?thesis
  proof (cases "totp_validate key (s_token page) 1 (unix_time env)")
    case None
    note run = setup_mismatch [OF assms None, of userId db]
    from None show ?thesis
      unfolding run by (simp add: stays appended_row_differs [symmetric])
  next
    case (Some delta)
    show ?thesis
    proof (cases "insert_2fa env db userId (s_secret page) True")
      case (Pair err db'')
      show ?thesis
      proof (cases err)
        case None
        with Pair have ins: "insert_2fa env db userId (s_secret page) True = (None, db'')"
          by simp
        note run = setup_match_accepted [OF assms Some ins]
        from ins obtain uid where uid: "userId = Some uid"
          "store_fault env (Insert_2fa userId (s_secret page) True) = None"
          "uid \<notin> set (map tf_user_id (user_2fa db))"
          "gen_random_uuid env \<notin> set (map tf_id (user_2fa db))"
          "db'' = db\<lparr>user_2fa := user_2fa db @ [new_2fa_row env uid (s_secret page) True]\<rparr>"
          unfolding insert_2fa_accepted by blast
        from Some ins uid show ?thesis
          unfolding run by (auto simp: authenticated new_2fa_row_def)
      next
        case (Some e')
        with Pair have ins: "insert_2fa env db userId (s_secret page) True = (Some e', db'')"
          by simp
        note run = setup_match_rejected [OF assms \<open>totp_validate key (s_token page) 1 (unix_time env) = Some delta\<close> ins]
        have not_accepted: "\<not> (store_fault env (Insert_2fa userId (s_secret page) True) = None
            \<and> (\<exists>uid. userId = Some uid \<and> uid \<notin> set (map tf_user_id (user_2fa db)))
            \<and> gen_random_uuid env \<notin> set (map tf_id (user_2fa db)))"
          using ins by (auto simp: insert_2fa_def split: option.splits if_splits)
        from \<open>totp_validate key (s_token page) 1 (unix_time env) = Some delta\<close> ins not_accepted
        show ?thesis
          unfolding run by (simp add: stays appended_row_differs [symmetric])
      qed
    qed
  qed
qed

text \<open>
  The amended C4 on the worked configuration: for \<open>bob\<close>, who has no row yet, the code
  \<open>475394\<close> validates against the generated secret, the insert is accepted, the new row
  carries the secret with \<open>enabled\<close> set and the flow reaches the dashboard; the code
  \<open>000000\<close> does not validate and nothing is sent to the store.
\<close>

theorem C4_setup_persists_witness:
  "fromBase32 (s_secret demo_setup) = Inr rfc_key
   \<and> totp_validate rfc_key (s_token demo_setup) 1 (unix_time demo_platform) \<noteq> None
   \<and> insert_2fa demo_platform demo_db (Some bob) (s_secret demo_setup) True =
       (None, demo_db\<lparr>user_2fa := [demo_2fa_row,
                new_2fa_row demo_platform bob demo_secret True]\<rparr>)
   \<and> Setup2FA_handleVerify demo_platform (Some bob) demo_setup demo_db =
       (demo_setup\<lparr>s_loading := False\<rparr>,
        demo_db\<lparr>user_2fa := [demo_2fa_row, new_2fa_row demo_platform bob demo_secret True]\<rparr>,
        [Store (Insert_2fa (Some bob) demo_secret True),
         Toast_success ''2FA setup complete!'', Navigate ''/dashboard'' None])
   \<and> totp_validate rfc_key (s_token (demo_setup\<lparr>s_token := ''000000''\<rparr>)) 1
        (unix_time demo_platform) = None
   \<and> Setup2FA_handleVerify demo_platform (Some bob) (demo_setup\<lparr>s_token := ''000000''\<rparr>)
        demo_db =
       (demo_setup\<lparr>s_token := ''000000'', s_loading := False\<rparr>, demo_db,
        [Toast_error ''Invalid code. Please try again.''])"
proof -
  have secret: "fromBase32 (s_secret demo_setup) = Inr rfc_key"
    by (simp add: demo_setup_def fromBase32_demo_secret)
  have secret': "fromBase32 (s_secret (demo_setup\<lparr>s_token := ''000000''\<rparr>)) = Inr rfc_key"
    by (simp add: demo_setup_def fromBase32_demo_secret)
  have match: "totp_validate rfc_key (s_token demo_setup) 1 (unix_time demo_platform) \<noteq> None"
    by (simp add: demo_setup_def demo_time validate_demo_code)
  have no_match: "totp_validate rfc_key (s_token (demo_setup\<lparr>s_token := ''000000''\<rparr>)) 1
      (unix_time demo_platform) = None"
    by (simp add: demo_setup_def demo_time validate_demo_zeros)
  have ins: "insert_2fa demo_platform demo_db (Some bob) (s_secret demo_setup) True =
      (None, demo_db\<lparr>user_2fa := [demo_2fa_row,
               new_2fa_row demo_platform bob demo_secret True]\<rparr>)"
    by (simp add: insert_2fa_def demo_setup_def demo_platform_def demo_db_def demo_2fa_row_def
        alice_def bob_def)
  show ?thesis
    using C4_setup_persists [OF secret, where env = demo_platform and userId = "Some bob"
        and db = demo_db and db' = "demo_db\<lparr>user_2fa := [demo_2fa_row,
          new_2fa_row demo_platform bob demo_secret True]\<rparr>"]
      C4_setup_persists [OF secret', where env = demo_platform and userId = "Some bob"
        and db = demo_db]
      secret match no_match ins
    by (simp add: demo_setup_def)
qed

section \<open>Passkey authentication\<close>





lemma no_navigation_in_catch: "Navigate path st \<notin> set (usePasskey_catch e)"
  by (simp add: usePasskey_catch_def)






section \<open>Passkey registration\<close>

lemma insert_passkey_accepted:
  "insert_passkey env db uid credential_id public_key device_name = (None, db') \<longleftrightarrow>
     store_fault env (Insert_passkey uid credential_id public_key device_name) = None
     \<and> credential_id \<notin> set (map pk_credential_id (user_passkeys db))
     \<and> gen_random_uuid env \<notin> set (map pk_id (user_passkeys db))
     \<and> db' = db\<lparr>user_passkeys := user_passkeys db
                  @ [new_passkey_row env uid credential_id public_key device_name]\<rparr>"
  by (auto simp: insert_passkey_def split: option.splits if_splits)

lemma length_getRandomValues: "length (getRandomValues env n) = n"
  by (simp add: getRandomValues_def)

lemma loadSettings_effects:
  "snd (snd (loadSettings env (Some u) page db))
     = [Store (Select_2fa_enabled (user_id u)), Store (Select_passkeys (user_id u))]"
  by (simp add: loadSettings_def)

lemma loadSettings_db: "fst (snd (loadSettings env user page db)) = db"
  by (simp add: loadSettings_def split: option.splits)

lemma addPasskey_store_effects:
  "\<exists>rest. snd (snd (addPasskey_store env u page db credential)) =
     Ceremony_create (attestation_options env u)
     # Store (Insert_passkey (user_id u) (btoa (at_rawId credential))
                (btoa (public_key_bytes credential)) (passkeyName page))
     # rest
     \<and> (\<forall>options. Ceremony_create options \<notin> set rest)"
proof (cases "insert_passkey env db (user_id u) (btoa (at_rawId credential))
    (btoa (public_key_bytes credential)) (passkeyName page)")
  case (Pair err db')
  show ?thesis
  proof (cases err)
    case None
    obtain page' db'' reads where
      load: "loadSettings env (Some u) (page\<lparr>passkeyName := []\<rparr>) db' = (page', db'', reads)"
      by (cases "loadSettings env (Some u) (page\<lparr>passkeyName := []\<rparr>) db'") auto
    then have "reads = [Store (Select_2fa_enabled (user_id u)), Store (Select_passkeys (user_id u))]"
      using loadSettings_effects [of env u "page\<lparr>passkeyName := []\<rparr>" db'] by simp
    with Pair None load show ?thesis
      by (simp add: addPasskey_store_def)
  next
    case (Some e)
    with Pair show ?thesis
      by (simp add: addPasskey_store_def addPasskey_catch_def)
  qed
qed

lemma addPasskey_store_accepted:
  assumes "insert_passkey env db (user_id u) (btoa (at_rawId credential))
             (btoa (public_key_bytes credential)) (passkeyName page) = (None, db')"
  shows "fst (snd (addPasskey_store env u page db credential)) = db'
         \<and> Toast_success ''Passkey added successfully''
             \<in> set (snd (snd (addPasskey_store env u page db credential)))
         \<and> passkeyName (fst (addPasskey_store env u page db credential)) = []"
proof -
  obtain page' db'' reads where
    load: "loadSettings env (Some u) (page\<lparr>passkeyName := []\<rparr>) db' = (page', db'', reads)"
    by (cases "loadSettings env (Some u) (page\<lparr>passkeyName := []\<rparr>) db'") auto
  then have "db'' = db'"
    using loadSettings_db [of env "Some u" "page\<lparr>passkeyName := []\<rparr>" db'] by simp
  moreover have "passkeyName page' = []"
    using load
    by (auto simp: loadSettings_def load_passkeys_def load_twoFA_def split: sum.splits)
  ultimately show ?thesis
    using assms load by (simp add: addPasskey_store_def)
qed

lemma insert_passkey_rejected:
  assumes "\<not> (store_fault env (Insert_passkey uid credential_id public_key device_name) = None
             \<and> credential_id \<notin> set (map pk_credential_id (user_passkeys db))
             \<and> gen_random_uuid env \<notin> set (map pk_id (user_passkeys db)))"
  shows "\<exists>e. insert_passkey env db uid credential_id public_key device_name = (Some e, db)"
  using assms by (auto simp: insert_passkey_def split: option.splits)

lemma addPasskey_store_rejected:
  assumes "insert_passkey env db (user_id u) (btoa (at_rawId credential))
             (btoa (public_key_bytes credential)) (passkeyName page) = (Some e, db')"
  shows "addPasskey_store env u page db credential =
           (page\<lparr>st_loading := False\<rparr>, db',
            [Ceremony_create (attestation_options env u),
             Store (Insert_passkey (user_id u) (btoa (at_rawId credential))
                      (btoa (public_key_bytes credential)) (passkeyName page)),
             addPasskey_catch e])"
  using assms by (simp add: addPasskey_store_def)

lemma addPasskey_catch_toast: "\<exists>message. addPasskey_catch e = Toast_error message"
  by (simp add: addPasskey_catch_def)

lemma trim_My_iPhone: "trim ''My iPhone'' = ''My iPhone''"
  by (simp add: trim_def js_whitespace_def strip_leading.simps)

lemma trim_space_nbsp: "trim [CHR 0x20, CHR 0xC2, CHR 0xA0] = []"
  by (simp add: trim_def js_whitespace_def strip_leading.simps)

text \<open>
  C6, as stated, fails twice. A device label made of a space and U+00A0 is blank:
  the handler shows \<open>Please enter a device name\<close> and invokes no ceremony. And when the
  ceremony succeeds with a credential whose id is already stored, the store rejects the
  insert (\<open>UNIQUE\<close> on \<open>credential_id\<close>): the request is sent, an error is shown and the
  tables are what they were.
\<close>

theorem C6_counterexample:
  "addPasskey demo_platform (Some demo_user)
      (demo_settings\<lparr>passkeyName := [CHR 0x20, CHR 0xC2, CHR 0xA0]\<rparr>) empty_db =
      (demo_settings\<lparr>passkeyName := [CHR 0x20, CHR 0xC2, CHR 0xA0]\<rparr>, empty_db,
       [Toast_error ''Please enter a device name''])
   \<and> credentials_create demo_platform (attestation_options demo_platform demo_user)
       = Inr (Some demo_attestation)
   \<and> addPasskey demo_platform (Some demo_user) demo_settings demo_db =
      (demo_settings\<lparr>st_loading := False\<rparr>, demo_db,
       [Ceremony_create (attestation_options demo_platform demo_user),
        Store (Insert_passkey alice ''AQIDBAU='' ''MFkw'' ''My iPhone''),
        Toast_error ''Failed to add passkey: duplicate key value violates unique constraint''])"
proof -
  have blank: "addPasskey demo_platform (Some demo_user)
      (demo_settings\<lparr>passkeyName := [CHR 0x20, CHR 0xC2, CHR 0xA0]\<rparr>) empty_db =
      (demo_settings\<lparr>passkeyName := [CHR 0x20, CHR 0xC2, CHR 0xA0]\<rparr>, empty_db,
       [Toast_error ''Please enter a device name''])"
    by (simp add: addPasskey_def trim_space_nbsp)
  have created: "credentials_create demo_platform (attestation_options demo_platform demo_user)
      = Inr (Some demo_attestation)"
    by (simp add: demo_platform_def)
  have encoded: "btoa (at_rawId demo_attestation) = ''AQIDBAU=''"
    "btoa (public_key_bytes demo_attestation) = ''MFkw''"
    by (simp_all add: demo_attestation_def public_key_bytes_def b64_char_def b64_alphabet_def)
  have rejected: "insert_passkey demo_platform demo_db alice ''AQIDBAU='' ''MFkw'' ''My iPhone''
      = (Some unique_violation, demo_db)"
    by (simp add: insert_passkey_def demo_platform_def demo_db_def demo_passkey_row_def)
  have "addPasskey demo_platform (Some demo_user) demo_settings demo_db =
      addPasskey_store demo_platform demo_user demo_settings demo_db demo_attestation"
    using created by (simp add: addPasskey_def demo_settings_def trim_My_iPhone)
  also have "\<dots> = (demo_settings\<lparr>st_loading := False\<rparr>, demo_db,
       [Ceremony_create (attestation_options demo_platform demo_user),
        Store (Insert_passkey alice ''AQIDBAU='' ''MFkw'' ''My iPhone''),
        Toast_error ''Failed to add passkey: duplicate key value violates unique constraint''])"
    using rejected
    by (simp add: addPasskey_store_def encoded demo_user_def demo_settings_def
        addPasskey_catch_def unique_violation_def)
  finally show ?thesis
    using blank created by simp
qed

text \<open>
  C6, amended: without a signed-in user or with a blank device label the handler shows
  \<open>Please enter a device name\<close> and does nothing else. Every other registration attempt
  invokes the creation ceremony, once, with a challenge of 32 octets from
  \<open>crypto.getRandomValues\<close>, user verification required, the platform attachment and
  exactly the algorithms ES256 (-7) and RS256 (-257). When the ceremony succeeds, the raw
  credential id and the public key of the credential (no octets when the authenticator
  gives no key) are base64-encoded and sent to the store with the submitted device label;
  the row is persisted, and success shown, if the store accepts the insert (no service
  error, the credential id not stored yet, the new row id unused); otherwise the tables
  are unchanged and an error is shown. When the ceremony fails nothing is sent to the
  store.
\<close>

theorem C6_register:
  "(user = None \<or> trim (passkeyName page) = [] \<longrightarrow>
      addPasskey env user page db = (page, db, [Toast_error ''Please enter a device name'']))
   \<and> (trim (passkeyName page) \<noteq> [] \<longrightarrow>
        (\<exists>rest. snd (snd (addPasskey env (Some u) page db))
                  = Ceremony_create (attestation_options env u) # rest
                \<and> (\<forall>options. Ceremony_create options \<notin> set rest)))
   \<and> cr_challenge (attestation_options env u) = getRandomValues env 32
   \<and> length (cr_challenge (attestation_options env u)) = 32
   \<and> cr_userVerification (attestation_options env u) = ''required''
   \<and> cr_authenticatorAttachment (attestation_options env u) = ''platform''
   \<and> cr_pubKeyCredParams (attestation_options env u)
       = [(- 7, ''public-key''), (- 257, ''public-key'')]
   \<and> cr_rp_id (attestation_options env u) = location_hostname env
   \<and> (trim (passkeyName page) \<noteq> []
        \<and> credentials_create env (attestation_options env u) = Inr (Some credential) \<longrightarrow>
        Store (Insert_passkey (user_id u) (btoa (at_rawId credential))
                 (btoa (case at_publicKey credential of None \<Rightarrow> [] | Some k \<Rightarrow> k))
                 (passkeyName page))
          \<in> set (snd (snd (addPasskey env (Some u) page db)))
        \<and> (if store_fault env
                 (Insert_passkey (user_id u) (btoa (at_rawId credential))
                    (btoa (case at_publicKey credential of None \<Rightarrow> [] | Some k \<Rightarrow> k))
                    (passkeyName page)) = None
               \<and> btoa (at_rawId credential) \<notin> set (map pk_credential_id (user_passkeys db))
               \<and> gen_random_uuid env \<notin> set (map pk_id (user_passkeys db))
            then fst (snd (addPasskey env (Some u) page db)) =
                   db\<lparr>user_passkeys := user_passkeys db @
                      [\<lparr>pk_id = gen_random_uuid env, pk_user_id = user_id u,
                        pk_credential_id = btoa (at_rawId credential),
                        pk_public_key =
                          btoa (case at_publicKey credential of None \<Rightarrow> [] | Some k \<Rightarrow> k),
                        pk_counter = 0, pk_device_name = Some (passkeyName page),
                        pk_created_at = server_now env, pk_last_used_at = None\<rparr>]\<rparr>
                 \<and> Toast_success ''Passkey added successfully''
                     \<in> set (snd (snd (addPasskey env (Some u) page db)))
            else fst (snd (addPasskey env (Some u) page db)) = db
                 \<and> Toast_success ''Passkey added successfully''
                     \<notin> set (snd (snd (addPasskey env (Some u) page db)))
                 \<and> (\<exists>message. Toast_error message
                       \<in> set (snd (snd (addPasskey env (Some u) page db))))))
   \<and> (trim (passkeyName page) \<noteq> []
        \<and> (\<forall>created. credentials_create env (attestation_options env u) \<noteq> Inr (Some created))
        \<longrightarrow>
        fst (snd (addPasskey env (Some u) page db)) = db
        \<and> (\<forall>call. Store call \<notin> set (snd (snd (addPasskey env (Some u) page db))))
        \<and> Toast_success ''Passkey added successfully''
            \<notin> set (snd (snd (addPasskey env (Some u) page db))))"
proof -
  have guard: "user = None \<or> trim (passkeyName page) = [] \<longrightarrow>
      addPasskey env user page db = (page, db, [Toast_error ''Please enter a device name''])"
    by (auto simp: addPasskey_def split: option.splits)
  have options: "cr_challenge (attestation_options env u) = getRandomValues env 32"
    "length (cr_challenge (attestation_options env u)) = 32"
    "cr_userVerification (attestation_options env u) = ''required''"
    "cr_authenticatorAttachment (attestation_options env u) = ''platform''"
    "cr_pubKeyCredParams (attestation_options env u)
       = [(- 7, ''public-key''), (- 257, ''public-key'')]"
    "cr_rp_id (attestation_options env u) = location_hostname env"
    by (simp_all add: attestation_options_def length_getRandomValues)
  have failed: "addPasskey env (Some u) page db =
      (page\<lparr>st_loading := False\<rparr>, db,
       [Ceremony_create (attestation_options env u),
        addPasskey_catch (case credentials_create env (attestation_options env u) of
                            Inl e \<Rightarrow> e
                          | Inr r \<Rightarrow> JsError ''Error'' ''Failed to create credential'')])"
    if "trim (passkeyName page) \<noteq> []"
      and "\<forall>created. credentials_create env (attestation_options env u) \<noteq> Inr (Some created)"
    using that by (auto simp: addPasskey_def split: sum.splits option.splits)
  have stored: "addPasskey env (Some u) page db = addPasskey_store env u page db c"
    if "trim (passkeyName page) \<noteq> []"
      and "credentials_create env (attestation_options env u) = Inr (Some c)" for c
    using that by (simp add: addPasskey_def)
  have ceremony: "trim (passkeyName page) \<noteq> [] \<longrightarrow>
      (\<exists>rest. snd (snd (addPasskey env (Some u) page db))
                = Ceremony_create (attestation_options env u) # rest
              \<and> (\<forall>options. Ceremony_create options \<notin> set rest))"
  proof (cases "\<exists>c. credentials_create env (attestation_options env u) = Inr (Some c)")
    case True
    then obtain c where "credentials_create env (attestation_options env u) = Inr (Some c)"
      by blast
    then show ?thesis
      using stored [of c] addPasskey_store_effects [of env u page db c] by auto
  next
    case False
    then show ?thesis
      using failed addPasskey_catch_toast
      by (auto simp: addPasskey_catch_def)
  qed
  have sent: "trim (passkeyName page) \<noteq> []
      \<and> credentials_create env (attestation_options env u) = Inr (Some credential) \<longrightarrow>
      Store (Insert_passkey (user_id u) (btoa (at_rawId credential))
               (btoa (case at_publicKey credential of None \<Rightarrow> [] | Some k \<Rightarrow> k))
               (passkeyName page))
        \<in> set (snd (snd (addPasskey env (Some u) page db)))"
    using stored [of credential]
      addPasskey_store_effects [of env u page db credential, unfolded public_key_bytes_def]
    by auto
  have accepted: "fst (snd (addPasskey env (Some u) page db)) =
        db\<lparr>user_passkeys := user_passkeys db @
           [\<lparr>pk_id = gen_random_uuid env, pk_user_id = user_id u,
             pk_credential_id = btoa (at_rawId credential),
             pk_public_key =
               btoa (case at_publicKey credential of None \<Rightarrow> [] | Some k \<Rightarrow> k),
             pk_counter = 0, pk_device_name = Some (passkeyName page),
             pk_created_at = server_now env, pk_last_used_at = None\<rparr>]\<rparr>
      \<and> Toast_success ''Passkey added successfully''
          \<in> set (snd (snd (addPasskey env (Some u) page db)))"
    if "trim (passkeyName page) \<noteq> []"
      and "credentials_create env (attestation_options env u) = Inr (Some credential)"
      and "store_fault env
             (Insert_passkey (user_id u) (btoa (at_rawId credential))
                (btoa (case at_publicKey credential of None \<Rightarrow> [] | Some k \<Rightarrow> k))
                (passkeyName page)) = None"
      and "btoa (at_rawId credential) \<notin> set (map pk_credential_id (user_passkeys db))"
      and "gen_random_uuid env \<notin> set (map pk_id (user_passkeys db))"
  proof -
    have "insert_passkey env db (user_id u) (btoa (at_rawId credential))
        (btoa (public_key_bytes credential)) (passkeyName page) =
        (None, db\<lparr>user_passkeys := user_passkeys db
           @ [new_passkey_row env (user_id u) (btoa (at_rawId credential))
                (btoa (public_key_bytes credential)) (passkeyName page)]\<rparr>)"
      using that(3-5) by (simp add: insert_passkey_accepted public_key_bytes_def)
    then show ?thesis
      using addPasskey_store_accepted [of env db u credential page] stored [OF that(1,2)]
      by (simp add: new_passkey_row_def public_key_bytes_def)
  qed
  have rejected: "fst (snd (addPasskey env (Some u) page db)) = db
      \<and> Toast_success ''Passkey added successfully''
          \<notin> set (snd (snd (addPasskey env (Some u) page db)))
      \<and> (\<exists>message. Toast_error message \<in> set (snd (snd (addPasskey env (Some u) page db))))"
    if "trim (passkeyName page) \<noteq> []"
      and "credentials_create env (attestation_options env u) = Inr (Some credential)"
      and "\<not> (store_fault env
             (Insert_passkey (user_id u) (btoa (at_rawId credential))
                (btoa (case at_publicKey credential of None \<Rightarrow> [] | Some k \<Rightarrow> k))
                (passkeyName page)) = None
           \<and> btoa (at_rawId credential) \<notin> set (map pk_credential_id (user_passkeys db))
           \<and> gen_random_uuid env \<notin> set (map pk_id (user_passkeys db)))"
  proof -
    note refused = that(3)
    obtain e where "insert_passkey env db (user_id u) (btoa (at_rawId credential))
        (btoa (public_key_bytes credential)) (passkeyName page) = (Some e, db)"
      using insert_passkey_rejected [OF refused] by (auto simp: public_key_bytes_def)
    then have "addPasskey env (Some u) page db =
        (page\<lparr>st_loading := False\<rparr>, db,
         [Ceremony_create (attestation_options env u),
          Store (Insert_passkey (user_id u) (btoa (at_rawId credential))
                   (btoa (public_key_bytes credential)) (passkeyName page)),
          addPasskey_catch e])"
      using stored [OF that(1,2)] by (simp add: addPasskey_store_rejected)
    then show ?thesis
      using addPasskey_catch_toast [of e] by auto
  qed
  have no_credential: "trim (passkeyName page) \<noteq> []
      \<and> (\<forall>created. credentials_create env (attestation_options env u) \<noteq> Inr (Some created))
      \<longrightarrow>
      fst (snd (addPasskey env (Some u) page db)) = db
      \<and> (\<forall>call. Store call \<notin> set (snd (snd (addPasskey env (Some u) page db))))
      \<and> Toast_success ''Passkey added successfully''
          \<notin> set (snd (snd (addPasskey env (Some u) page db)))"
    using failed by (auto simp: addPasskey_catch_def)
  from guard ceremony options sent accepted rejected no_credential show ?thesis
    by simp
qed

text \<open>
  C6 on the worked configuration: registering \<open>My iPhone\<close> for \<open>alice\<close> on empty tables
  invokes the ceremony, and the credential it returns (raw id 1 to 5, public key
  \<open>48 89 48\<close>) is stored as the row with credential id \<open>AQIDBAU=\<close>, public key \<open>MFkw\<close> and
  that label. On the tables that already hold this credential id the insert is rejected
  and they stay what they were. With the blank label nothing but the toast happens.
\<close>

theorem C6_register_witness:
  "trim (passkeyName demo_settings) \<noteq> []
   \<and> length (cr_challenge (attestation_options demo_platform demo_user)) = 32
   \<and> credentials_create demo_platform (attestation_options demo_platform demo_user)
       = Inr (Some demo_attestation)
   \<and> at_rawId demo_attestation = [1, 2, 3, 4, 5]
   \<and> at_publicKey demo_attestation = Some [48, 89, 48]
   \<and> btoa [1, 2, 3, 4, 5] = ''AQIDBAU='' \<and> btoa [48, 89, 48] = ''MFkw''
   \<and> store_fault demo_platform (Insert_passkey alice ''AQIDBAU='' ''MFkw'' ''My iPhone'') = None
   \<and> ''AQIDBAU='' \<notin> set (map pk_credential_id (user_passkeys empty_db))
   \<and> gen_random_uuid demo_platform \<notin> set (map pk_id (user_passkeys empty_db))
   \<and> fst (snd (addPasskey demo_platform (Some demo_user) demo_settings empty_db)) =
       empty_db\<lparr>user_passkeys :=
          [\<lparr>pk_id = ''0a1b2c3d-0000-4000-8000-000000000003'', pk_user_id = alice, pk_credential_id = ''AQIDBAU='',
            pk_public_key = ''MFkw'', pk_counter = 0, pk_device_name = Some ''My iPhone'',
            pk_created_at = 1735689661, pk_last_used_at = None\<rparr>]\<rparr>
   \<and> Store (Insert_passkey alice ''AQIDBAU='' ''MFkw'' ''My iPhone'')
       \<in> set (snd (snd (addPasskey demo_platform (Some demo_user) demo_settings empty_db)))
   \<and> Toast_success ''Passkey added successfully''
       \<in> set (snd (snd (addPasskey demo_platform (Some demo_user) demo_settings empty_db)))
   \<and> ''AQIDBAU='' \<in> set (map pk_credential_id (user_passkeys demo_db))
   \<and> fst (snd (addPasskey demo_platform (Some demo_user) demo_settings demo_db)) = demo_db
   \<and> Toast_success ''Passkey added successfully''
       \<notin> set (snd (snd (addPasskey demo_platform (Some demo_user) demo_settings demo_db)))
   \<and> trim [CHR 0x20, CHR 0xC2, CHR 0xA0] = []
   \<and> addPasskey demo_platform (Some demo_user)
        (demo_settings\<lparr>passkeyName := [CHR 0x20, CHR 0xC2, CHR 0xA0]\<rparr>) demo_db =
       (demo_settings\<lparr>passkeyName := [CHR 0x20, CHR 0xC2, CHR 0xA0]\<rparr>, demo_db,
        [Toast_error ''Please enter a device name''])"
proof -
  have name: "trim (passkeyName demo_settings) \<noteq> []"
    by (simp add: demo_settings_def trim_My_iPhone)
  have blank: "trim (passkeyName (demo_settings\<lparr>passkeyName := [CHR 0x20, CHR 0xC2, CHR 0xA0]\<rparr>)) = []"
    by (simp add: trim_space_nbsp)
  have created: "credentials_create demo_platform (attestation_options demo_platform demo_user)
      = Inr (Some demo_attestation)"
    by (simp add: demo_platform_def)
  have credential: "at_rawId demo_attestation = [1, 2, 3, 4, 5]"
    "at_publicKey demo_attestation = Some [48, 89, 48]"
    by (simp_all add: demo_attestation_def)
  have store: "store_fault demo_platform call = None"
    "gen_random_uuid demo_platform = ''0a1b2c3d-0000-4000-8000-000000000003''"
    "server_now demo_platform = 1735689661" for call
    by (simp_all add: demo_platform_def)
  have tables: "user_passkeys empty_db = []"
    "map pk_credential_id (user_passkeys demo_db) = [''AQIDBAU='']"
    "map pk_id (user_passkeys demo_db) = [''0a1b2c3d-0000-4000-8000-000000000002'']"
    by (simp_all add: empty_db_def demo_db_def demo_passkey_row_def)
  have account: "user_id demo_user = alice" "passkeyName demo_settings = ''My iPhone''"
    by (simp_all add: demo_user_def demo_settings_def)
  show ?thesis
    using C6_register [where env = demo_platform and user = "Some demo_user" and u = demo_user
        and page = demo_settings and db = empty_db and credential = demo_attestation]
      C6_register [where env = demo_platform and user = "Some demo_user" and u = demo_user
        and page = demo_settings and db = demo_db and credential = demo_attestation]
      C6_register [where env = demo_platform and user = "Some demo_user" and u = demo_user
        and page = "demo_settings\<lparr>passkeyName := [CHR 0x20, CHR 0xC2, CHR 0xA0]\<rparr>"
        and db = demo_db and credential = demo_attestation]
      name blank created
    by (simp add: credential store tables account b64_char_def b64_alphabet_def
        trim_space_nbsp length_getRandomValues)
qed

end
